theory Spec2Isabelle
  imports Main "HOL-Library.Word"
begin

unbundle bit_operations_syntax

section \<open>Data model of the forward render module\<close>

text \<open>
  The module is \<^verbatim>\<open>ForwardRenderModule\<close> (forwardrendermodule.cpp and its header).
  Objects the module only holds by pointer are addresses: a natural number names the
  object, and a pointer that may be \<^verbatim>\<open>nullptr\<close> is an option of an address.
  Pointer comparison is comparison of addresses.
\<close>

type_synonym u32 = "32 word"

type_synonym u64 = "64 word"

type_synonym Texture = nat

type_synonym Entity = nat

type_synonym SurfacePtr = nat

type_synonym SamplerDesc = nat

type_synonym ResourceFormat = nat

type_synonym BufferAddressInfo = nat

datatype TextureClass = Albedo | Normal | Emissive | Occlusion | MetalRough | SpecGloss

datatype MaterialBlend = Opaque | Mask | AlphaBlend

text \<open>
  \<^verbatim>\<open>cauldron::TextureInfo\<close>, as far as the module reads it: the texture object, the
  sampler descriptor the texture asks for and the texture coordinate set it samples.
\<close>

record TextureInfo =
  tiTexture :: "Texture option"
  TexSamplerDesc :: SamplerDesc
  UVSet :: nat

text \<open>
  \<^verbatim>\<open>cauldron::Material\<close>, as far as the module queries it. \<^verbatim>\<open>GetTextureInfo\<close>
  returns a null pointer (here \<open>None\<close>) when the material has no texture of the class.
\<close>

record Material =
  GetTextureInfo :: "TextureClass \<Rightarrow> TextureInfo option"
  HasPBRInfo :: bool
  HasPBRMetalRough :: bool
  HasPBRSpecGloss :: bool
  HasDoubleSided :: bool
  GetBlendMode :: MaterialBlend

text \<open>The header's \<^verbatim>\<open>struct BoundTexture\<close>: a texture and its 32-bit unsigned reference count.\<close>

record BoundTexture =
  pTexture :: "Texture option"
  count :: u32

text \<open>
  A \<^verbatim>\<open>cauldron::Sampler\<close> is created from a descriptor and answers \<^verbatim>\<open>GetDesc()\<close>
  with it; the model keeps the descriptor.
\<close>

record Sampler =
  GetDesc :: SamplerDesc

definition CreateSampler :: "SamplerDesc \<Rightarrow> Sampler" where
  "CreateSampler d = \<lparr>GetDesc = d\<rparr>"

text \<open>
  \<^verbatim>\<open>struct TextureIndices\<close> (shared with the shaders): for each of the five texture
  slots of a surface the index of the texture in the bindless table and the index of
  its sampler, all \<^verbatim>\<open>int32_t\<close>. Table sizes stay far below \<open>2^31\<close>, so indices are
  integers.
\<close>

record TextureIndices =
  AlbedoTextureIndex :: int
  AlbedoSamplerIndex :: int
  MetalRoughSpecGlossTextureIndex :: int
  MetalRoughSpecGlossSamplerIndex :: int
  NormalTextureIndex :: int
  NormalSamplerIndex :: int
  EmissiveTextureIndex :: int
  EmissiveSamplerIndex :: int
  OcclusionTextureIndex :: int
  OcclusionSamplerIndex :: int

record PipelineSurfaceRenderInfo =
  pOwner :: Entity
  pSurface :: SurfacePtr
  TextureIndices :: TextureIndices

text \<open>
  A \<^verbatim>\<open>DefineList\<close> is a \<^verbatim>\<open>std::map\<close> from define names to values;
  \<^verbatim>\<open>insert\<close> keeps the value of a name that is already defined.
\<close>

type_synonym DefineList = "string \<rightharpoonup> string"

definition insertDefine :: "string \<Rightarrow> string \<Rightarrow> DefineList \<Rightarrow> DefineList" where
  "insertDefine k v defineList = (case defineList k of None \<Rightarrow> defineList(k \<mapsto> v) | Some _ \<Rightarrow> defineList)"

datatype CullMode = CullNone | CullFront | CullBack

text \<open>
  One entry of the input layout, \<^verbatim>\<open>InputLayoutDesc(attribute, format, index, 0)\<close>.
\<close>

record InputLayoutDesc =
  AttributeType :: nat
  AttributeFmt :: ResourceFormat
  AttributeInputIndex :: nat

text \<open>
  A pipeline object is what \<^verbatim>\<open>GetPipelinePermutationID\<close> puts into its
  \<^verbatim>\<open>PipelineDesc\<close>: the define list of both shaders, whether the motion vector
  target is among the raster formats, the culling mode and the input layout. The
  topology and the depth state are the same for every pipeline of the module.
\<close>

record PipelineObject =
  psoDefines :: DefineList
  psoMotionVectorTarget :: bool
  CullingMode :: CullMode
  psoInputLayout :: "InputLayoutDesc list"

record PipelineRenderGroup =
  m_Pipeline :: PipelineObject
  m_PipelineHash :: u64
  m_UsedAttributes :: u32
  m_RenderSurfaces :: "PipelineSurfaceRenderInfo list"

text \<open>The members of \<^verbatim>\<open>ForwardRenderModule\<close> that content loading and drawing work on.\<close>

record ForwardRenderModule =
  m_VariableShading :: bool
  m_GenerateMotionVectors :: bool
  m_Textures :: "BoundTexture list"
  m_Samplers :: "Sampler list"
  m_PipelineRenderGroups :: "PipelineRenderGroup list"

section \<open>The bindless texture table\<close>

text \<open>
  The sampler scan of \<^verbatim>\<open>AddTexture\<close>:
  \<^verbatim>\<open>for (i = 0; i < m_Samplers.size(); ++i) if (m_Samplers[i]->GetDesc() == desc) break;\<close>
  It returns the index it stopped at, the size of the list when no sampler matches.
\<close>

function findSampler :: "Sampler list \<Rightarrow> SamplerDesc \<Rightarrow> nat \<Rightarrow> nat" where
  "findSampler samplers d i =
     (if i < length samplers
      then (if GetDesc (samplers ! i) = d then i else findSampler samplers d (i + 1))
      else i)"
  by pat_completeness auto
termination
  by (relation "measure (\<lambda>(samplers, d, i). length samplers - i)") auto

declare findSampler.simps [simp del]

text \<open>
  The texture scan of \<^verbatim>\<open>AddTexture\<close>. At index \<open>i\<close> with the first free index
  \<open>firstFreeIndex\<close> found so far (\<open>-1\<close> for none): a slot holding the texture has its
  count bumped and ends the call (\<open>Inl\<close>, the new table and the slot); a slot with
  count 0 is remembered when it is the first such; the end of the table gives \<open>Inr\<close> of
  the first free index.
\<close>

function scanTextures ::
  "Texture option \<Rightarrow> BoundTexture list \<Rightarrow> nat \<Rightarrow> int \<Rightarrow> (BoundTexture list \<times> int) + int" where
  "scanTextures t textures i firstFreeIndex =
     (if i < length textures
      then (let boundTexture = textures ! i in
            if t = pTexture boundTexture
            then Inl (textures[i := boundTexture\<lparr>count := count boundTexture + 1\<rparr>], int i)
            else if firstFreeIndex < 0 \<and> count boundTexture = 0
            then scanTextures t textures (i + 1) (int i)
            else scanTextures t textures (i + 1) firstFreeIndex)
      else Inr firstFreeIndex)"
  by pat_completeness auto
termination
  by (relation "measure (\<lambda>(t, textures, i, f). length textures - i)") auto

declare scanTextures.simps [simp del]

text \<open>
  \<^verbatim>\<open>int32_t AddTexture(pMaterial, textureClass, int32_t& textureSamplerIndex)\<close>. The
  reference parameter is an argument and a result: the call returns the texture index,
  the value left in \<^verbatim>\<open>textureSamplerIndex\<close> and the module.
\<close>

definition AddTexture ::
  "Material \<Rightarrow> TextureClass \<Rightarrow> int \<Rightarrow> ForwardRenderModule \<Rightarrow>
     int \<times> int \<times> ForwardRenderModule" where
  "AddTexture pMaterial textureClass textureSamplerIndex rm =
     (case GetTextureInfo pMaterial textureClass of
        None \<Rightarrow> (-1, textureSamplerIndex, rm)
      | Some pTextureInfo \<Rightarrow>
         (let si = findSampler (m_Samplers rm) (TexSamplerDesc pTextureInfo) 0;
              samplers = (if si = length (m_Samplers rm)
                          then m_Samplers rm @ [CreateSampler (TexSamplerDesc pTextureInfo)]
                          else m_Samplers rm)
          in case scanTextures (tiTexture pTextureInfo) (m_Textures rm) 0 (-1) of
               Inl (textures, i) \<Rightarrow>
                 (i, int si, rm\<lparr>m_Textures := textures, m_Samplers := samplers\<rparr>)
             | Inr firstFreeIndex \<Rightarrow>
                 (let b = \<lparr>pTexture = tiTexture pTextureInfo, count = 1\<rparr> in
                  if firstFreeIndex < 0
                  then (int (length (m_Textures rm @ [b])) - 1, int si,
                        rm\<lparr>m_Textures := m_Textures rm @ [b], m_Samplers := samplers\<rparr>)
                  else (firstFreeIndex, int si,
                        rm\<lparr>m_Textures := (m_Textures rm)[nat firstFreeIndex := b],
                           m_Samplers := samplers\<rparr>))))"

text \<open>
  \<^verbatim>\<open>void RemoveTexture(int32_t index)\<close>. A negative index does nothing. An index past
  the end of the table is an out-of-bounds access of \<^verbatim>\<open>m_Textures[index]\<close>: the
  model returns \<open>None\<close> there. The count is decremented in \<^verbatim>\<open>uint32_t\<close>.
\<close>

definition RemoveTexture :: "int \<Rightarrow> ForwardRenderModule \<Rightarrow> ForwardRenderModule option" where
  "RemoveTexture index rm =
     (if index \<ge> 0
      then (if nat index < length (m_Textures rm)
            then (let b = (m_Textures rm) ! nat index;
                      b1 = b\<lparr>count := count b - 1\<rparr>;
                      b2 = (if count b1 = 0 then b1\<lparr>pTexture := None\<rparr> else b1)
                  in Some (rm\<lparr>m_Textures := (m_Textures rm)[nat index := b2]\<rparr>))
            else None)
      else Some rm)"

text \<open>
  The module after \<^verbatim>\<open>Init\<close>: both tables and the list of pipeline groups are empty
  (\<^verbatim>\<open>Init\<close> only reserves their capacity); the variable shading flag and the
  motion vector flag are read from the configuration.
\<close>

definition initModule :: "bool \<Rightarrow> bool \<Rightarrow> ForwardRenderModule" where
  "initModule variableShading generateMotionVectors =
     \<lparr>m_VariableShading = variableShading, m_GenerateMotionVectors = generateMotionVectors,
      m_Textures = [], m_Samplers = [], m_PipelineRenderGroups = []\<rparr>"

text \<open>
  A sequence of calls of \<^verbatim>\<open>AddTexture\<close> and \<^verbatim>\<open>RemoveTexture\<close>, run in order. The
  run is \<open>None\<close> when a call reads the table out of bounds.
\<close>

datatype TableOp = OpAddTexture Material TextureClass int | OpRemoveTexture int

fun applyTableOps :: "TableOp list \<Rightarrow> ForwardRenderModule \<Rightarrow> ForwardRenderModule option" where
  "applyTableOps [] rm = Some rm"
| "applyTableOps (OpAddTexture pMaterial textureClass si # ops) rm =
     applyTableOps ops (snd (snd (AddTexture pMaterial textureClass si rm)))"
| "applyTableOps (OpRemoveTexture index # ops) rm =
     (case RemoveTexture index rm of None \<Rightarrow> None | Some rm' \<Rightarrow> applyTableOps ops rm')"

section \<open>Content the module reads through pointers\<close>

text \<open>
  \<^verbatim>\<open>cauldron::Surface\<close>, as far as the module reads it. Vertex attributes are numbered
  by \<^verbatim>\<open>VertexAttributeType\<close>; \<open>VertexBufferFormat a\<close> and \<open>VertexBufferAddress a\<close>
  stand for \<^verbatim>\<open>GetVertexBuffer(a).ResourceDataFormat\<close> and
  \<^verbatim>\<open>GetVertexBuffer(a).pBuffer->GetAddressInfo()\<close>.
\<close>

record Surface =
  GetVertexAttributes :: u32
  GetMaterial :: Material
  HasTranslucency :: bool
  GetSurfaceID :: nat
  VertexBufferFormat :: "nat \<Rightarrow> ResourceFormat"
  VertexBufferAddress :: "nat \<Rightarrow> BufferAddressInfo"
  IndexBufferAddress :: BufferAddressInfo
  IndexBufferCount :: nat

text \<open>The data of an \<^verbatim>\<open>AnimationComponent\<close>: the skin and the skinned buffers per surface.\<close>

record AnimationComponentData =
  m_skinId :: int
  m_skinnedPositions :: "nat \<Rightarrow> BufferAddressInfo"
  m_skinnedNormals :: "nat \<Rightarrow> BufferAddressInfo"
  m_skinnedPreviousPosition :: "nat \<Rightarrow> BufferAddressInfo"

text \<open>
  The objects behind the pointers the module keeps: the surface at an address, whether an
  entity is active, and the animation component of an entity (\<open>None\<close> when
  \<^verbatim>\<open>HasComponent(AnimationComponentMgr::Get())\<close> is false).
\<close>

record Heap =
  surfaceAt :: "SurfacePtr \<Rightarrow> Surface"
  IsActive :: "Entity \<Rightarrow> bool"
  AnimationComponent :: "Entity \<Rightarrow> AnimationComponentData option"

text \<open>
  A component of a loaded entity: a mesh component (its manager is
  \<^verbatim>\<open>MeshComponentMgr::Get()\<close>) with its owner and the surfaces of its mesh in index
  order, or a component of another manager.
\<close>

datatype Component = MeshComponent Entity "SurfacePtr list" | OtherComponent Entity

record EntityDataBlock =
  Components :: "Component list"

record ContentBlock =
  EntityDataBlocks :: "EntityDataBlock list"

text \<open>
  What the module uses of the framework without its code being part of the sources: the
  helpers \<^verbatim>\<open>Hash\<close>, \<^verbatim>\<open>AddTextureToDefineList\<close> and
  \<^verbatim>\<open>Surface::GetVertexAttributeDefines\<close>, the three capacity constants, the value of
  a default-constructed \<^verbatim>\<open>TextureIndices\<close> and the value an uninitialised
  \<^verbatim>\<open>int32_t samplerIndex\<close> happens to hold. They are parameters of the model.
  \<^verbatim>\<open>AddTextureToDefineList\<close> is handed the define list and \<^verbatim>\<open>usedAttributes\<close>
  and may change both.
\<close>

record Framework =
  Hash :: "DefineList \<Rightarrow> u32 \<Rightarrow> SurfacePtr \<Rightarrow> u64"
  AddTextureToDefineList ::
    "DefineList \<times> u32 \<Rightarrow> u32 \<Rightarrow> Material \<Rightarrow> TextureClass \<Rightarrow> string \<Rightarrow> string \<Rightarrow> DefineList \<times> u32"
  GetVertexAttributeDefines :: "u32 \<Rightarrow> DefineList \<Rightarrow> DefineList"
  MAX_TEXTURES_COUNT :: nat
  MAX_SAMPLERS_COUNT :: nat
  MAX_SHADOW_MAP_TEXTURES_COUNT :: nat
  TextureIndices_init :: TextureIndices
  samplerIndex_init :: int

text \<open>
  Modelled from the spec: the enumeration \<^verbatim>\<open>VertexAttributeType\<close> and the flags
  \<^verbatim>\<open>VertexAttributeFlag_*\<close> are declared in the framework's mesh header, which is not
  among the sources. The spec names the attributes; a flag is the bit \<open>1 << attribute\<close>,
  as the loops over \<^verbatim>\<open>VertexAttributeType::Count\<close> in the module read it, with
  position at index 0, normal at index 1 and previous position last (\<^verbatim>\<open>Execute\<close>).
\<close>

definition VertexAttributeType_Count :: nat where "VertexAttributeType_Count = 12"

definition VertexAttributeFlag_Position :: u32 where "VertexAttributeFlag_Position = 0x1"

definition VertexAttributeFlag_Normal :: u32 where "VertexAttributeFlag_Normal = 0x2"

definition VertexAttributeFlag_Tangent :: u32 where "VertexAttributeFlag_Tangent = 0x4"

definition VertexAttributeFlag_Texcoord0 :: u32 where "VertexAttributeFlag_Texcoord0 = 0x8"

definition VertexAttributeFlag_Texcoord1 :: u32 where "VertexAttributeFlag_Texcoord1 = 0x10"

definition VertexAttributeFlag_Color0 :: u32 where "VertexAttributeFlag_Color0 = 0x20"

definition VertexAttributeFlag_Color1 :: u32 where "VertexAttributeFlag_Color1 = 0x40"

definition VertexAttributeFlag_PreviousPosition :: u32 where "VertexAttributeFlag_PreviousPosition = 0x800"

section \<open>The pipeline permutation cache\<close>

text \<open>
  The first part of \<^verbatim>\<open>GetPipelinePermutationID\<close>: the used attributes and the define
  list of a surface, up to the call of \<^verbatim>\<open>Hash\<close>.
\<close>

definition surfaceDefineList :: "Framework \<Rightarrow> bool \<Rightarrow> Surface \<Rightarrow> DefineList \<times> u32" where
  "surfaceDefineList fw generateMotionVectors surface =
     (let usedAttributes = VertexAttributeFlag_Position OR VertexAttributeFlag_Normal OR
            VertexAttributeFlag_Tangent OR VertexAttributeFlag_Color0 OR
            VertexAttributeFlag_Color1 OR VertexAttributeFlag_PreviousPosition;
          surfaceAttributes = GetVertexAttributes surface;
          usedAttributes = usedAttributes AND surfaceAttributes;
          defineList = Map.empty;
          pMaterial = GetMaterial surface;
          defineList = (if generateMotionVectors
                        then insertDefine ''HAS_MOTION_VECTORS_RT'' ''3''
                               (insertDefine ''HAS_MOTION_VECTORS'' ''1'' defineList)
                        else defineList);
          du = (defineList, usedAttributes);
          du = (if HasPBRInfo pMaterial
                then (if HasPBRMetalRough pMaterial
                      then (let du = (insertDefine ''MATERIAL_METALLICROUGHNESS'' [] (fst du), snd du);
                                du = AddTextureToDefineList fw du surfaceAttributes pMaterial Albedo
                                       ''ID_albedoTexture'' ''ID_albedoTexCoord''
                            in AddTextureToDefineList fw du surfaceAttributes pMaterial MetalRough
                                 ''ID_metallicRoughnessTexture'' ''ID_metallicRoughnessTexCoord'')
                      else if HasPBRSpecGloss pMaterial
                      then (let du = (insertDefine ''MATERIAL_SPECULARGLOSSINESS'' [] (fst du), snd du);
                                du = AddTextureToDefineList fw du surfaceAttributes pMaterial Albedo
                                       ''ID_albedoTexture'' ''ID_albedoTexCoord''
                            in AddTextureToDefineList fw du surfaceAttributes pMaterial SpecGloss
                                 ''ID_specularGlossinessTexture'' ''ID_specularGlossinessTexCoord'')
                      else du)
                else du);
          du = AddTextureToDefineList fw du surfaceAttributes pMaterial Normal
                 ''ID_normalTexture'' ''ID_normalTexCoord'';
          du = AddTextureToDefineList fw du surfaceAttributes pMaterial Emissive
                 ''ID_emissiveTexture'' ''ID_emissiveTexCoord'';
          du = AddTextureToDefineList fw du surfaceAttributes pMaterial Occlusion
                 ''ID_occlusionTexture'' ''ID_occlusionTexCoord'';
          defineList = fst du;
          usedAttributes = snd du;
          defineList = (if HasDoubleSided pMaterial
                        then insertDefine ''ID_doublesided'' [] defineList else defineList);
          defineList = (if GetBlendMode pMaterial = Mask
                        then insertDefine ''ID_alphaMask'' [] defineList else defineList);
          defineList = GetVertexAttributeDefines fw usedAttributes defineList
      in (defineList, usedAttributes))"

text \<open>
  The scan for a group that was built for the hash:
  \<^verbatim>\<open>for (i = 0; i < m_PipelineRenderGroups.size(); ++i) if (groups[i].m_PipelineHash == hash) return i;\<close>
\<close>

function findPipelineGroup :: "PipelineRenderGroup list \<Rightarrow> u64 \<Rightarrow> nat \<Rightarrow> nat option" where
  "findPipelineGroup groups h i =
     (if i < length groups
      then (if m_PipelineHash (groups ! i) = h then Some i else findPipelineGroup groups h (i + 1))
      else None)"
  by pat_completeness auto
termination
  by (relation "measure (\<lambda>(groups, h, i). length groups - i)") auto

declare findPipelineGroup.simps [simp del]

text \<open>
  The input layout: one entry for each attribute below \<^verbatim>\<open>VertexAttributeType::Count\<close>
  whose bit is set in the used attributes, in attribute order, numbered by the size of
  the layout so far.
\<close>

definition inputLayout :: "u32 \<Rightarrow> Surface \<Rightarrow> InputLayoutDesc list" where
  "inputLayout usedAttributes surface =
     foldl (\<lambda>vertexAttributes attribute.
              if usedAttributes AND push_bit attribute 1 \<noteq> 0
              then vertexAttributes @
                   [\<lparr>AttributeType = attribute, AttributeFmt = VertexBufferFormat surface attribute,
                     AttributeInputIndex = length vertexAttributes\<rparr>]
              else vertexAttributes)
       [] [0 ..< VertexAttributeType_Count]"

text \<open>
  The second part of \<^verbatim>\<open>GetPipelinePermutationID\<close>, entered when no group has the
  hash: the pipeline object is built from the define list, the raster formats, the
  culling mode (none for a double-sided material, front otherwise) and the input
  layout, and a new group without surfaces is set up for it.
\<close>

definition createPipelineGroup ::
  "bool \<Rightarrow> DefineList \<Rightarrow> u32 \<Rightarrow> u64 \<Rightarrow> Surface \<Rightarrow> PipelineRenderGroup" where
  "createPipelineGroup generateMotionVectors defineList usedAttributes h surface =
     (let pPipelineObj =
            \<lparr>psoDefines = defineList,
             psoMotionVectorTarget = generateMotionVectors,
             CullingMode = (if HasDoubleSided (GetMaterial surface) then CullNone else CullFront),
             psoInputLayout = inputLayout usedAttributes surface\<rparr>
      in \<lparr>m_Pipeline = pPipelineObj, m_PipelineHash = h,
          m_UsedAttributes = usedAttributes, m_RenderSurfaces = []\<rparr>)"

text \<open>
  \<^verbatim>\<open>uint32_t GetPipelinePermutationID(const Surface* pSurface)\<close>: the index of the
  group of the surface's hash and the module, which has one more group when no group
  had the hash.
\<close>

definition GetPipelinePermutationID ::
  "Framework \<Rightarrow> Heap \<Rightarrow> SurfacePtr \<Rightarrow> ForwardRenderModule \<Rightarrow> nat \<times> ForwardRenderModule" where
  "GetPipelinePermutationID fw heap surfacePtr rm =
     (let surface = surfaceAt heap surfacePtr;
          du = surfaceDefineList fw (m_GenerateMotionVectors rm) surface;
          defineList = fst du;
          usedAttributes = snd du;
          h = Hash fw defineList usedAttributes surfacePtr
      in case findPipelineGroup (m_PipelineRenderGroups rm) h 0 of
           Some i \<Rightarrow> (i, rm)
         | None \<Rightarrow>
            (let pipelineGroup =
                   createPipelineGroup (m_GenerateMotionVectors rm) defineList usedAttributes h surface;
                 groups = m_PipelineRenderGroups rm @ [pipelineGroup]
             in (length groups - 1, rm\<lparr>m_PipelineRenderGroups := groups\<rparr>)))"

section \<open>Calls into the backend\<close>

text \<open>
  The module drives the backend through calls on the command list, the parameter set
  and the dynamic buffer pool. A run of the module is the list of these calls in
  order. Transforms, colours and buffer sizes are left out of the calls' arguments.
\<close>

datatype ViewDimension = Texture2D | TextureCube

datatype Command =
    SetTextureSRV "Texture option" ViewDimension nat
  | SetSampler Sampler nat
  | ResourceBarrier nat
  | ClearRenderTarget nat
  | ClearDepthStencil nat
  | BeginRaster nat bool
  | AllocConstantBuffer string
  | UpdateRootConstantBuffer nat
  | SetViewportScissorRect u32 u32
  | SetPrimitiveTopology
  | SetPipelineState PipelineObject
  | BatchAllocateConstantBuffer string u32
  | InitializeInstanceInformation u32 Entity SurfacePtr
  | InitializeTextureIndices u32 TextureIndices
  | Bind PipelineObject
  | SetVertexBuffers "BufferAddressInfo list"
  | SetIndexBuffer BufferAddressInfo
  | DrawIndexedInstanced nat
  | EndRaster bool

text \<open>
  The ways a call of the module ends without returning: a failed
  \<^verbatim>\<open>CauldronAssert(ASSERT_CRITICAL, ...)\<close>, or an access of one of the module's
  vectors past its end.
\<close>

datatype Failure = TooManyTextures | TooManySamplers | TooManyShadowMaps | OutOfBounds

section \<open>Content synchronisation\<close>

text \<open>
  The texture part of the surface loop of \<^verbatim>\<open>OnNewContentLoaded\<close>: the calls of
  \<^verbatim>\<open>AddTexture\<close> that fill the \<^verbatim>\<open>TextureIndices\<close> of a new surface render
  information. \<^verbatim>\<open>samplerIndex\<close> is declared without a value and handed by reference
  to every call.
\<close>

definition resolveTextures ::
  "Framework \<Rightarrow> Material \<Rightarrow> ForwardRenderModule \<Rightarrow> TextureIndices \<times> ForwardRenderModule" where
  "resolveTextures fw pMaterial rm =
     (let ti = TextureIndices_init fw;
          samplerIndex = samplerIndex_init fw;
          (ti, samplerIndex, rm) =
            (if HasPBRInfo pMaterial
             then (let (i, samplerIndex, rm) = AddTexture pMaterial Albedo samplerIndex rm;
                       ti = ti\<lparr>AlbedoTextureIndex := i, AlbedoSamplerIndex := samplerIndex\<rparr>
                   in if HasPBRMetalRough pMaterial
                      then (let (i, samplerIndex, rm) = AddTexture pMaterial MetalRough samplerIndex rm
                            in (ti\<lparr>MetalRoughSpecGlossTextureIndex := i,
                                   MetalRoughSpecGlossSamplerIndex := samplerIndex\<rparr>,
                                samplerIndex, rm))
                      else if HasPBRSpecGloss pMaterial
                      then (let (i, samplerIndex, rm) = AddTexture pMaterial SpecGloss samplerIndex rm
                            in (ti\<lparr>MetalRoughSpecGlossTextureIndex := i,
                                   MetalRoughSpecGlossSamplerIndex := samplerIndex\<rparr>,
                                samplerIndex, rm))
                      else (ti, samplerIndex, rm))
             else (ti, samplerIndex, rm));
          (i, samplerIndex, rm) = AddTexture pMaterial Normal samplerIndex rm;
          ti = ti\<lparr>NormalTextureIndex := i, NormalSamplerIndex := samplerIndex\<rparr>;
          (i, samplerIndex, rm) = AddTexture pMaterial Emissive samplerIndex rm;
          ti = ti\<lparr>EmissiveTextureIndex := i, EmissiveSamplerIndex := samplerIndex\<rparr>;
          (i, samplerIndex, rm) = AddTexture pMaterial Occlusion samplerIndex rm;
          ti = ti\<lparr>OcclusionTextureIndex := i, OcclusionSamplerIndex := samplerIndex\<rparr>
      in (ti, rm))"

text \<open>
  The body of the surface loop of \<^verbatim>\<open>OnNewContentLoaded\<close> for one surface of a mesh
  component owned by \<open>owner\<close>: a translucent surface is skipped; otherwise the texture
  slots are resolved, the pipeline group is looked up or created, and the surface
  render information is appended to the surfaces of that group.
\<close>

definition loadSurface ::
  "Framework \<Rightarrow> Heap \<Rightarrow> Entity \<Rightarrow> SurfacePtr \<Rightarrow> ForwardRenderModule \<Rightarrow> ForwardRenderModule" where
  "loadSurface fw heap owner surfacePtr rm =
     (let surface = surfaceAt heap surfacePtr;
          pMaterial = GetMaterial surface
      in if HasTranslucency surface then rm
         else
          (let (ti, rm) = resolveTextures fw pMaterial rm;
               surfaceRenderInfo = \<lparr>pOwner = owner, pSurface = surfacePtr, TextureIndices = ti\<rparr>;
               (g, rm) = GetPipelinePermutationID fw heap surfacePtr rm;
               groups = m_PipelineRenderGroups rm;
               pipelineGroup = groups ! g
           in rm\<lparr>m_PipelineRenderGroups :=
                    groups[g := pipelineGroup\<lparr>m_RenderSurfaces :=
                                  m_RenderSurfaces pipelineGroup @ [surfaceRenderInfo]\<rparr>]\<rparr>))"

fun loadSurfaces ::
  "Framework \<Rightarrow> Heap \<Rightarrow> Entity \<Rightarrow> SurfacePtr list \<Rightarrow> ForwardRenderModule \<Rightarrow> ForwardRenderModule" where
  "loadSurfaces fw heap owner [] rm = rm"
| "loadSurfaces fw heap owner (s # ss) rm = loadSurfaces fw heap owner ss (loadSurface fw heap owner s rm)"

fun loadComponents ::
  "Framework \<Rightarrow> Heap \<Rightarrow> Component list \<Rightarrow> ForwardRenderModule \<Rightarrow> ForwardRenderModule" where
  "loadComponents fw heap [] rm = rm"
| "loadComponents fw heap (MeshComponent owner mesh # cs) rm =
     loadComponents fw heap cs (loadSurfaces fw heap owner mesh rm)"
| "loadComponents fw heap (OtherComponent owner # cs) rm = loadComponents fw heap cs rm"

fun loadEntities ::
  "Framework \<Rightarrow> Heap \<Rightarrow> EntityDataBlock list \<Rightarrow> ForwardRenderModule \<Rightarrow> ForwardRenderModule" where
  "loadEntities fw heap [] rm = rm"
| "loadEntities fw heap (e # es) rm = loadEntities fw heap es (loadComponents fw heap (Components e) rm)"

text \<open>
  The block that ends \<^verbatim>\<open>OnNewContentLoaded\<close>: the capacity assertion on the textures,
  every texture slot set on the parameter set, the capacity assertion on the samplers,
  every sampler set.
\<close>

definition publishTables :: "Framework \<Rightarrow> ForwardRenderModule \<Rightarrow> Failure + Command list" where
  "publishTables fw rm =
     (if \<not> length (m_Textures rm) \<le> MAX_TEXTURES_COUNT fw div 2 then Inl TooManyTextures
      else if \<not> length (m_Samplers rm) \<le> MAX_SAMPLERS_COUNT fw then Inl TooManySamplers
      else Inr (map (\<lambda>i. SetTextureSRV (pTexture (m_Textures rm ! i)) Texture2D i)
                  [0 ..< length (m_Textures rm)] @
                map (\<lambda>i. SetSampler (m_Samplers rm ! i) i) [0 ..< length (m_Samplers rm)]))"

definition OnNewContentLoaded ::
  "Framework \<Rightarrow> Heap \<Rightarrow> ContentBlock \<Rightarrow> ForwardRenderModule \<Rightarrow>
     Failure + (ForwardRenderModule \<times> Command list)" where
  "OnNewContentLoaded fw heap pContentBlock rm =
     (let rm = loadEntities fw heap (EntityDataBlocks pContentBlock) rm
      in case publishTables fw rm of Inl f \<Rightarrow> Inl f | Inr cmds \<Rightarrow> Inr (rm, cmds))"

text \<open>
  The five calls of \<^verbatim>\<open>RemoveTexture\<close> that \<^verbatim>\<open>OnContentUnloaded\<close> makes for the
  entry it found, in the order of the source.
\<close>

definition removeTextures :: "TextureIndices \<Rightarrow> ForwardRenderModule \<Rightarrow> ForwardRenderModule option" where
  "removeTextures ti rm =
     Option.bind (RemoveTexture (AlbedoTextureIndex ti) rm) (\<lambda>rm.
     Option.bind (RemoveTexture (MetalRoughSpecGlossTextureIndex ti) rm) (\<lambda>rm.
     Option.bind (RemoveTexture (NormalTextureIndex ti) rm) (\<lambda>rm.
     Option.bind (RemoveTexture (EmissiveTextureIndex ti) rm) (\<lambda>rm.
     RemoveTexture (OcclusionTextureIndex ti) rm))))"

text \<open>
  The iterator loop over the surfaces of one group: at the first entry of the owner and
  the surface its textures are released, the entry is erased and the loop ends with
  \<open>surfaceFound\<close>. The result is \<open>surfaceFound\<close>, the surfaces of the group and the
  module with its texture table.
\<close>

fun unloadFromSurfaces ::
  "Entity \<Rightarrow> SurfacePtr \<Rightarrow> PipelineSurfaceRenderInfo list \<Rightarrow> ForwardRenderModule \<Rightarrow>
     (bool \<times> PipelineSurfaceRenderInfo list \<times> ForwardRenderModule) option" where
  "unloadFromSurfaces owner surfacePtr [] rm = Some (False, [], rm)"
| "unloadFromSurfaces owner surfacePtr (x # xs) rm =
     (if pOwner x = owner \<and> pSurface x = surfacePtr
      then (case removeTextures (TextureIndices x) rm of
              None \<Rightarrow> None
            | Some rm' \<Rightarrow> Some (True, xs, rm'))
      else (case unloadFromSurfaces owner surfacePtr xs rm of
              None \<Rightarrow> None
            | Some (surfaceFound, xs', rm') \<Rightarrow> Some (surfaceFound, x # xs', rm')))"

text \<open>The loop over the pipeline groups, left at the first group the surface was found in.\<close>

fun unloadFromGroups ::
  "Entity \<Rightarrow> SurfacePtr \<Rightarrow> PipelineRenderGroup list \<Rightarrow> ForwardRenderModule \<Rightarrow>
     (PipelineRenderGroup list \<times> ForwardRenderModule) option" where
  "unloadFromGroups owner surfacePtr [] rm = Some ([], rm)"
| "unloadFromGroups owner surfacePtr (pipelineGroup # gs) rm =
     (case unloadFromSurfaces owner surfacePtr (m_RenderSurfaces pipelineGroup) rm of
        None \<Rightarrow> None
      | Some (surfaceFound, surfaces, rm') \<Rightarrow>
          if surfaceFound
          then Some (pipelineGroup\<lparr>m_RenderSurfaces := surfaces\<rparr> # gs, rm')
          else (case unloadFromGroups owner surfacePtr gs rm' of
                  None \<Rightarrow> None
                | Some (gs', rm'') \<Rightarrow> Some (pipelineGroup # gs', rm'')))"

text \<open>
  The body of the surface loop of \<^verbatim>\<open>OnContentUnloaded\<close> for one surface of a mesh
  component owned by \<open>owner\<close>.
\<close>

definition unloadSurface ::
  "Entity \<Rightarrow> SurfacePtr \<Rightarrow> ForwardRenderModule \<Rightarrow> ForwardRenderModule option" where
  "unloadSurface owner surfacePtr rm =
     (case unloadFromGroups owner surfacePtr (m_PipelineRenderGroups rm) rm of
        None \<Rightarrow> None
      | Some (groups, rm') \<Rightarrow> Some (rm'\<lparr>m_PipelineRenderGroups := groups\<rparr>))"

fun unloadSurfaces ::
  "Entity \<Rightarrow> SurfacePtr list \<Rightarrow> ForwardRenderModule \<Rightarrow> ForwardRenderModule option" where
  "unloadSurfaces owner [] rm = Some rm"
| "unloadSurfaces owner (s # ss) rm =
     (case unloadSurface owner s rm of None \<Rightarrow> None | Some rm' \<Rightarrow> unloadSurfaces owner ss rm')"

fun unloadComponents :: "Component list \<Rightarrow> ForwardRenderModule \<Rightarrow> ForwardRenderModule option" where
  "unloadComponents [] rm = Some rm"
| "unloadComponents (MeshComponent owner mesh # cs) rm =
     (case unloadSurfaces owner mesh rm of None \<Rightarrow> None | Some rm' \<Rightarrow> unloadComponents cs rm')"
| "unloadComponents (OtherComponent owner # cs) rm = unloadComponents cs rm"

fun unloadEntities :: "EntityDataBlock list \<Rightarrow> ForwardRenderModule \<Rightarrow> ForwardRenderModule option" where
  "unloadEntities [] rm = Some rm"
| "unloadEntities (e # es) rm =
     (case unloadComponents (Components e) rm of None \<Rightarrow> None | Some rm' \<Rightarrow> unloadEntities es rm')"

definition OnContentUnloaded :: "ContentBlock \<Rightarrow> ForwardRenderModule \<Rightarrow> ForwardRenderModule option" where
  "OnContentUnloaded pContentBlock rm = unloadEntities (EntityDataBlocks pContentBlock) rm"

text \<open>
  A sequence of content notifications handled one after the other under the module's
  lock. The run ends (\<open>None\<close>) when a notification fails.
\<close>

datatype Notification = Loaded ContentBlock | Unloaded ContentBlock

fun handleNotifications ::
  "Framework \<Rightarrow> Heap \<Rightarrow> Notification list \<Rightarrow> ForwardRenderModule \<Rightarrow> ForwardRenderModule option" where
  "handleNotifications fw heap [] rm = Some rm"
| "handleNotifications fw heap (Loaded b # ns) rm =
     (case OnNewContentLoaded fw heap b rm of
        Inl f \<Rightarrow> None
      | Inr (rm', cmds) \<Rightarrow> handleNotifications fw heap ns rm')"
| "handleNotifications fw heap (Unloaded b # ns) rm =
     (case OnContentUnloaded b rm of None \<Rightarrow> None | Some rm' \<Rightarrow> handleNotifications fw heap ns rm')"

text \<open>
  The content block of a notification that names one entity and one surface: one entity
  with one mesh component, whose mesh has that surface only.
\<close>

definition pairBlock :: "Entity \<Rightarrow> SurfacePtr \<Rightarrow> ContentBlock" where
  "pairBlock owner surfacePtr = \<lparr>EntityDataBlocks = [\<lparr>Components = [MeshComponent owner [surfacePtr]]\<rparr>]\<rparr>"

section \<open>Frame submission\<close>

text \<open>
  Modelled from the spec: the enumeration \<^verbatim>\<open>UpscalerState\<close> is declared in the
  framework, not in the sources. The states are no upscaling, upscaling active and not
  yet applied, and upscaling applied.
\<close>

datatype UpscalerState = UpscalerState_None | UpscalerState_PreUpscale | UpscalerState_PostUpscale

text \<open>The fields of \<^verbatim>\<open>ResolutionInfo\<close> that \<^verbatim>\<open>Execute\<close> reads.\<close>

record ResolutionInfo =
  RenderWidth :: u32
  RenderHeight :: u32
  UpscaleWidth :: u32
  UpscaleHeight :: u32

text \<open>
  What a frame reads from the scene and the framework: the image based lighting
  textures, the screen space shadow texture, the render targets of the shadow map pool,
  the upscaler state and the resolutions.
\<close>

record FrameContext =
  GetBRDFLutTexture :: "Texture option"
  GetIBLTexture_Irradiance :: "Texture option"
  GetIBLTexture_Prefiltered :: "Texture option"
  GetScreenSpaceShadowTexture :: "Texture option"
  ShadowMapRenderTargets :: "Texture list"
  GetUpscalingState :: UpscalerState
  GetResolutionInfo :: ResolutionInfo

text \<open>
  The first part of \<^verbatim>\<open>Execute\<close>: the lighting textures that exist are bound to
  slots 500 to 502; the screen space shadow texture is bound to slot 503 when there is
  one, else the shadow maps of the pool are bound from slot 503 on, after the assertion
  on their number.
\<close>

definition bindSceneTextures :: "Framework \<Rightarrow> FrameContext \<Rightarrow> Failure + Command list" where
  "bindSceneTextures fw fc =
     (let lighting =
            (case GetBRDFLutTexture fc of None \<Rightarrow> []
             | Some t \<Rightarrow> [SetTextureSRV (Some t) Texture2D 500]) @
            (case GetIBLTexture_Irradiance fc of None \<Rightarrow> []
             | Some t \<Rightarrow> [SetTextureSRV (Some t) TextureCube 501]) @
            (case GetIBLTexture_Prefiltered fc of None \<Rightarrow> []
             | Some t \<Rightarrow> [SetTextureSRV (Some t) TextureCube 502])
      in case GetScreenSpaceShadowTexture fc of
           Some t \<Rightarrow> Inr (lighting @ [SetTextureSRV (Some t) Texture2D 503])
         | None \<Rightarrow>
            (let pool = ShadowMapRenderTargets fc
             in if length pool > 0
                then (if \<not> length pool \<le> MAX_SHADOW_MAP_TEXTURES_COUNT fw then Inl TooManyShadowMaps
                      else Inr (lighting @
                                map (\<lambda>i. SetTextureSRV (Some (pool ! i)) Texture2D (503 + i))
                                  [0 ..< length pool]))
                else Inr lighting))"

text \<open>
  The width and height \<^verbatim>\<open>Execute\<close> hands to \<^verbatim>\<open>SetViewportScissorRect\<close>.
\<close>

definition viewportSize :: "FrameContext \<Rightarrow> u32 \<times> u32" where
  "viewportSize fc =
     (let upscaleState = GetUpscalingState fc;
          resInfo = GetResolutionInfo fc
      in if upscaleState = UpscalerState_None \<or> upscaleState = UpscalerState_PostUpscale
         then (UpscaleWidth resInfo, UpscaleHeight resInfo)
         else (RenderWidth resInfo, RenderHeight resInfo))"

text \<open>The first loop over the surfaces of a group: \<^verbatim>\<open>uint32_t activeCount\<close>.\<close>

fun countActive :: "Heap \<Rightarrow> PipelineSurfaceRenderInfo list \<Rightarrow> u32 \<Rightarrow> u32" where
  "countActive heap [] activeCount = activeCount"
| "countActive heap (x # xs) activeCount =
     countActive heap xs (if IsActive heap (pOwner x) then activeCount + 1 else activeCount)"

text \<open>
  The vertex buffers of a surface for the attributes of the group, in attribute order.
\<close>

definition vertexBuffersOf :: "u32 \<Rightarrow> Surface \<Rightarrow> BufferAddressInfo list" where
  "vertexBuffersOf usedAttributes surface =
     foldl (\<lambda>vertexBuffers attribute.
              if usedAttributes AND push_bit attribute 1 \<noteq> 0
              then vertexBuffers @ [VertexBufferAddress surface attribute]
              else vertexBuffers)
       [] [0 ..< VertexAttributeType_Count]"

text \<open>
  The skinning override: \<^verbatim>\<open>vertexBuffers[0]\<close>, \<^verbatim>\<open>vertexBuffers[1]\<close> and
  \<^verbatim>\<open>vertexBuffers.back()\<close> are replaced by the skinned buffers of the surface. The
  accesses are out of bounds when the vector has fewer than two entries.
\<close>

definition skinVertexBuffers ::
  "AnimationComponentData \<Rightarrow> nat \<Rightarrow> BufferAddressInfo list \<Rightarrow> Failure + BufferAddressInfo list" where
  "skinVertexBuffers animData surfaceID vertexBuffers =
     (if \<not> 0 < length vertexBuffers then Inl OutOfBounds
      else (let vertexBuffers = vertexBuffers[0 := m_skinnedPositions animData surfaceID]
            in if \<not> 1 < length vertexBuffers then Inl OutOfBounds
               else (let vertexBuffers = vertexBuffers[1 := m_skinnedNormals animData surfaceID]
                     in Inr (vertexBuffers[length vertexBuffers - 1 :=
                               m_skinnedPreviousPosition animData surfaceID]))))"

text \<open>
  The second loop over the surfaces of a group. \<open>activeCount\<close> is the size of the two
  vectors of constant buffer slots, \<open>currentSurface\<close> the \<^verbatim>\<open>uint32_t\<close> index of the
  next slot. A surface whose owner is not active is passed over.
\<close>

fun drawSurfaces ::
  "Heap \<Rightarrow> PipelineRenderGroup \<Rightarrow> u32 \<Rightarrow> PipelineSurfaceRenderInfo list \<Rightarrow> u32 \<Rightarrow>
     Failure + Command list" where
  "drawSurfaces heap pipelineGroup activeCount [] currentSurface = Inr []"
| "drawSurfaces heap pipelineGroup activeCount (x # xs) currentSurface =
     (if IsActive heap (pOwner x)
      then (if \<not> unat currentSurface < unat activeCount then Inl OutOfBounds
            else (let surface = surfaceAt heap (pSurface x);
                      vertexBuffers = vertexBuffersOf (m_UsedAttributes pipelineGroup) surface;
                      skinned =
                        (case AnimationComponent heap (pOwner x) of
                           None \<Rightarrow> Inr vertexBuffers
                         | Some animData \<Rightarrow>
                             if m_skinId animData \<noteq> -1
                             then skinVertexBuffers animData (GetSurfaceID surface) vertexBuffers
                             else Inr vertexBuffers)
                  in case skinned of
                       Inl f \<Rightarrow> Inl f
                     | Inr vertexBuffers \<Rightarrow>
                        (case drawSurfaces heap pipelineGroup activeCount xs (currentSurface + 1) of
                           Inl f \<Rightarrow> Inl f
                         | Inr cmds \<Rightarrow>
                             Inr ([InitializeInstanceInformation currentSurface (pOwner x) (pSurface x),
                                   InitializeTextureIndices currentSurface (TextureIndices x),
                                   UpdateRootConstantBuffer 1,
                                   UpdateRootConstantBuffer 2,
                                   Bind (m_Pipeline pipelineGroup),
                                   SetVertexBuffers vertexBuffers,
                                   SetIndexBuffer (IndexBufferAddress surface),
                                   DrawIndexedInstanced (IndexBufferCount surface)] @ cmds))))
      else drawSurfaces heap pipelineGroup activeCount xs currentSurface)"

text \<open>The body of the loop over the pipeline groups.\<close>

definition renderGroup :: "Heap \<Rightarrow> PipelineRenderGroup \<Rightarrow> Failure + Command list" where
  "renderGroup heap pipelineGroup =
     (let activeCount = countActive heap (m_RenderSurfaces pipelineGroup) 0
      in case drawSurfaces heap pipelineGroup activeCount (m_RenderSurfaces pipelineGroup) 0 of
           Inl f \<Rightarrow> Inl f
         | Inr cmds \<Rightarrow>
             Inr ([SetPipelineState (m_Pipeline pipelineGroup),
                   BatchAllocateConstantBuffer ''InstanceInformation'' activeCount,
                   BatchAllocateConstantBuffer ''TextureIndices'' activeCount] @ cmds))"

fun renderGroups :: "Heap \<Rightarrow> PipelineRenderGroup list \<Rightarrow> Failure + Command list" where
  "renderGroups heap [] = Inr []"
| "renderGroups heap (pipelineGroup # gs) =
     (case renderGroup heap pipelineGroup of
        Inl f \<Rightarrow> Inl f
      | Inr cmds \<Rightarrow>
          (case renderGroups heap gs of Inl f \<Rightarrow> Inl f | Inr rest \<Rightarrow> Inr (cmds @ rest)))"

text \<open>
  \<^verbatim>\<open>void Execute(double deltaTime, CommandList* pCmdList)\<close>: the calls of one frame,
  or the failure that ends it.
\<close>

definition Execute ::
  "Framework \<Rightarrow> Heap \<Rightarrow> FrameContext \<Rightarrow> ForwardRenderModule \<Rightarrow> Failure + Command list" where
  "Execute fw heap fc rm =
     (case bindSceneTextures fw fc of
        Inl f \<Rightarrow> Inl f
      | Inr bindings \<Rightarrow>
         (let mv = m_GenerateMotionVectors rm;
              vrs = m_VariableShading rm;
              (width, height) = viewportSize fc;
              setup =
                [ResourceBarrier (if mv then 3 else 2), ClearRenderTarget 0] @
                (if mv then [ClearRenderTarget 1] else []) @
                [ClearDepthStencil 2,
                 BeginRaster (if mv then 2 else 1) vrs,
                 AllocConstantBuffer ''SceneInformation'',
                 AllocConstantBuffer ''SceneLightingInformation'',
                 UpdateRootConstantBuffer 0,
                 UpdateRootConstantBuffer 3,
                 AllocConstantBuffer ''LightingCBData'',
                 UpdateRootConstantBuffer 4,
                 SetViewportScissorRect width height,
                 SetPrimitiveTopology]
          in case renderGroups heap (m_PipelineRenderGroups rm) of
               Inl f \<Rightarrow> Inl f
             | Inr draws \<Rightarrow> Inr (bindings @ setup @ draws @ [EndRaster vrs, ResourceBarrier 2])))"

text \<open>What is read off the calls of a frame: the indexed draws, the batch allocations.\<close>

fun isDraw :: "Command \<Rightarrow> bool" where
  "isDraw (DrawIndexedInstanced n) = True"
| "isDraw c = False"

fun isBatchAllocate :: "Command \<Rightarrow> bool" where
  "isBatchAllocate (BatchAllocateConstantBuffer k n) = True"
| "isBatchAllocate c = False"

fun isViewport :: "Command \<Rightarrow> bool" where
  "isViewport (SetViewportScissorRect w h) = True"
| "isViewport c = False"

text \<open>
  The instance constant buffer slots written in a list of calls: slot index, owner and
  surface of every \<open>InitializeInstanceInformation\<close>, in order.
\<close>

fun instanceSlots :: "Command list \<Rightarrow> (u32 \<times> Entity \<times> SurfacePtr) list" where
  "instanceSlots [] = []"
| "instanceSlots (InitializeInstanceInformation i e s # cs) = (i, e, s) # instanceSlots cs"
| "instanceSlots (c # cs) = instanceSlots cs"

section \<open>Helpers modelled from the spec\<close>

text \<open>A natural number in decimal digits, as \<^verbatim>\<open>std::to_wstring\<close> prints it.\<close>

fun decimal :: "nat \<Rightarrow> string" where
  "decimal n = (if n < 10 then [char_of (48 + n)] else decimal (n div 10) @ [char_of (48 + n mod 10)])"

declare decimal.simps [simp del]

text \<open>
  Modelled from the spec: the helper \<^verbatim>\<open>AddTextureToDefineList\<close> is not part of the
  sources. Following section 4.2 of the spec, a texture of the class adds a "has
  texture" define and a "texcoord set index" define, only if the texture coordinate
  attribute the texture samples is present on the surface. The spec does not say what
  the helper does with the used attributes that the source hands to it (by reference,
  before the surface attributes); the model follows the comment at the head of
  \<^verbatim>\<open>GetPipelinePermutationID\<close> in the source ("TEXCOORD# depends on which textures are
  using them. If there is no texture, they should be removed"): the candidate mask has
  no texture coordinate attribute, and the helper marks the attribute of the texture
  coordinate set as used when it adds the defines of a texture.
\<close>

definition AddTextureToDefineList_model ::
  "DefineList \<times> u32 \<Rightarrow> u32 \<Rightarrow> Material \<Rightarrow> TextureClass \<Rightarrow> string \<Rightarrow> string \<Rightarrow> DefineList \<times> u32" where
  "AddTextureToDefineList_model du surfaceAttributes pMaterial textureClass pTextureDefine pTexCoordDefine =
     (case GetTextureInfo pMaterial textureClass of
        None \<Rightarrow> du
      | Some pTextureInfo \<Rightarrow>
          (let texCoordAttribute = push_bit (UVSet pTextureInfo) VertexAttributeFlag_Texcoord0
           in if surfaceAttributes AND texCoordAttribute \<noteq> 0
              then (insertDefine pTexCoordDefine (decimal (UVSet pTextureInfo))
                      (insertDefine pTextureDefine [] (fst du)),
                    snd du OR texCoordAttribute)
              else du))"



section \<open>Invariants\<close>

text \<open>
  The invariant of the table that makes "the slot of a texture" well defined: a texture
  that is not null is bound in at most one slot.
\<close>

definition texDistinct :: "BoundTexture list \<Rightarrow> bool" where
  "texDistinct textures \<longleftrightarrow>
     (\<forall>i < length textures. \<forall>j < length textures.
        pTexture (textures ! i) = pTexture (textures ! j) \<and> pTexture (textures ! i) \<noteq> None \<longrightarrow> i = j)"

text \<open>
  The hash \<^verbatim>\<open>GetPipelinePermutationID\<close> computes for a surface.
\<close>

definition surfaceHash :: "Framework \<Rightarrow> Heap \<Rightarrow> bool \<Rightarrow> SurfacePtr \<Rightarrow> u64" where
  "surfaceHash fw heap generateMotionVectors surfacePtr =
     (let du = surfaceDefineList fw generateMotionVectors (surfaceAt heap surfacePtr)
      in Hash fw (fst du) (snd du) surfacePtr)"

text \<open>
  The invariant of the cache: no two groups have the same hash, and every entry of a
  group is of a surface whose hash is the hash of the group.
\<close>

definition cacheInv :: "Framework \<Rightarrow> Heap \<Rightarrow> ForwardRenderModule \<Rightarrow> bool" where
  "cacheInv fw heap rm \<longleftrightarrow>
     distinct (map m_PipelineHash (m_PipelineRenderGroups rm)) \<and>
     (\<forall>g \<in> set (m_PipelineRenderGroups rm). \<forall>x \<in> set (m_RenderSurfaces g).
        m_PipelineHash g = surfaceHash fw heap (m_GenerateMotionVectors rm) (pSurface x))"

text \<open>The surfaces of a list whose owner is active, in list order.\<close>

definition activeSurfaces :: "Heap \<Rightarrow> PipelineSurfaceRenderInfo list \<Rightarrow> PipelineSurfaceRenderInfo list" where
  "activeSurfaces heap xs = filter (\<lambda>x. IsActive heap (pOwner x)) xs"

text \<open>
  The skinning override of a surface stays inside the vertex buffers: the owner has no
  animation component, or no skin, or the group binds at least two vertex buffers.
\<close>

definition skinFits :: "Heap \<Rightarrow> PipelineRenderGroup \<Rightarrow> PipelineSurfaceRenderInfo \<Rightarrow> bool" where
  "skinFits heap pipelineGroup x =
     (case AnimationComponent heap (pOwner x) of
        None \<Rightarrow> True
      | Some animData \<Rightarrow>
          m_skinId animData = -1 \<or>
          2 \<le> length (vertexBuffersOf (m_UsedAttributes pipelineGroup) (surfaceAt heap (pSurface x))))"

section \<open>Sample content\<close>

text \<open>
  Sample content: a material with PBR information in the metallic-roughness workflow
  whose only texture is an albedo texture \<open>t\<close> with sampler descriptor \<open>d\<close>, sampled
  with texture coordinate set 0.
\<close>

definition albedoMaterial :: "Texture \<Rightarrow> SamplerDesc \<Rightarrow> Material" where
  "albedoMaterial t d =
     \<lparr>GetTextureInfo = (\<lambda>c. if c = Albedo
                            then Some \<lparr>tiTexture = Some t, TexSamplerDesc = d, UVSet = 0\<rparr>
                            else None),
      HasPBRInfo = True, HasPBRMetalRough = True, HasPBRSpecGloss = False,
      HasDoubleSided = False, GetBlendMode = Opaque\<rparr>"

text \<open>
  A sample run of the table: two materials are added and the first slot is released
  again; \<open>sampleModule\<close> is the module the run ends in.
\<close>

definition sampleOps :: "TableOp list" where
  "sampleOps = [OpAddTexture (albedoMaterial 10 7) Albedo 0,
                OpAddTexture (albedoMaterial 20 7) Albedo 0, OpRemoveTexture 0]"

definition sampleModule :: ForwardRenderModule where
  "sampleModule =
     \<lparr>m_VariableShading = False, m_GenerateMotionVectors = False,
      m_Textures = [\<lparr>pTexture = None, count = 0\<rparr>, \<lparr>pTexture = Some 20, count = 1\<rparr>],
      m_Samplers = [\<lparr>GetDesc = 7\<rparr>], m_PipelineRenderGroups = []\<rparr>"

text \<open>The sample module after one more release of its slot 0, whose count was already 0.\<close>

definition wrappedModule :: ForwardRenderModule where
  "wrappedModule =
     \<lparr>m_VariableShading = False, m_GenerateMotionVectors = False,
      m_Textures = [\<lparr>pTexture = None, count = 4294967295\<rparr>, \<lparr>pTexture = Some 20, count = 1\<rparr>],
      m_Samplers = [\<lparr>GetDesc = 7\<rparr>], m_PipelineRenderGroups = []\<rparr>"

text \<open>
  Sample content: texture indices with an albedo and a normal slot, a pipeline group with
  given hash and surfaces, and a module with two textures and three loaded surfaces in
  two groups.
\<close>

definition sampleIndices :: "int \<Rightarrow> int \<Rightarrow> TextureIndices" where
  "sampleIndices a n =
     \<lparr>AlbedoTextureIndex = a, AlbedoSamplerIndex = 0,
      MetalRoughSpecGlossTextureIndex = -1, MetalRoughSpecGlossSamplerIndex = 0,
      NormalTextureIndex = n, NormalSamplerIndex = 0,
      EmissiveTextureIndex = -1, EmissiveSamplerIndex = 0,
      OcclusionTextureIndex = -1, OcclusionSamplerIndex = 0\<rparr>"

definition sampleGroup :: "u64 \<Rightarrow> PipelineSurfaceRenderInfo list \<Rightarrow> PipelineRenderGroup" where
  "sampleGroup h surfaces =
     \<lparr>m_Pipeline = \<lparr>psoDefines = Map.empty, psoMotionVectorTarget = False,
                    CullingMode = CullFront, psoInputLayout = []\<rparr>,
      m_PipelineHash = h, m_UsedAttributes = 7, m_RenderSurfaces = surfaces\<rparr>"

definition loadedModule :: ForwardRenderModule where
  "loadedModule =
     \<lparr>m_VariableShading = False, m_GenerateMotionVectors = False,
      m_Textures = [\<lparr>pTexture = Some 10, count = 2\<rparr>, \<lparr>pTexture = Some 20, count = 1\<rparr>],
      m_Samplers = [\<lparr>GetDesc = 7\<rparr>],
      m_PipelineRenderGroups =
        [sampleGroup 1 [\<lparr>pOwner = 1, pSurface = 100, TextureIndices = sampleIndices 0 (-1)\<rparr>],
         sampleGroup 2 [\<lparr>pOwner = 2, pSurface = 200, TextureIndices = sampleIndices 0 1\<rparr>,
                        \<lparr>pOwner = 3, pSurface = 300, TextureIndices = sampleIndices (-1) (-1)\<rparr>]]\<rparr>"

text \<open>
  Sample content: a framework whose hash is the used-attribute mask, a heap with a surface
  at address 100 that has position, normal, tangent and texture coordinates 0 and other
  surfaces with position and normal only, a content block of one entity with a mesh of
  the surfaces 100 and 200, and a sequence of notifications.
\<close>

definition sampleFramework :: Framework where
  "sampleFramework =
     \<lparr>Hash = (\<lambda>defineList usedAttributes surfacePtr. ucast usedAttributes),
      AddTextureToDefineList = AddTextureToDefineList_model,
      GetVertexAttributeDefines = (\<lambda>usedAttributes defineList. defineList),
      MAX_TEXTURES_COUNT = 1000, MAX_SAMPLERS_COUNT = 20, MAX_SHADOW_MAP_TEXTURES_COUNT = 15,
      TextureIndices_init = sampleIndices (-1) (-1), samplerIndex_init = -1\<rparr>"

definition sampleSurface :: "u32 \<Rightarrow> Material \<Rightarrow> Surface" where
  "sampleSurface attributes material =
     \<lparr>GetVertexAttributes = attributes, GetMaterial = material, HasTranslucency = False,
      GetSurfaceID = 0, VertexBufferFormat = (\<lambda>a. 0), VertexBufferAddress = (\<lambda>a. a),
      IndexBufferAddress = 50, IndexBufferCount = 36\<rparr>"

definition sampleHeap :: Heap where
  "sampleHeap =
     \<lparr>surfaceAt = (\<lambda>p. if p = 100 then sampleSurface 0xF (albedoMaterial 10 7)
                        else sampleSurface 0x3 (albedoMaterial 20 7)),
      IsActive = (\<lambda>e. e \<noteq> 3),
      AnimationComponent = (\<lambda>e. None)\<rparr>"

definition sampleBlock :: ContentBlock where
  "sampleBlock = \<lparr>EntityDataBlocks = [\<lparr>Components = [OtherComponent 1, MeshComponent 1 [100, 200]]\<rparr>]\<rparr>"

definition sampleNotifications :: "Notification list" where
  "sampleNotifications = [Loaded sampleBlock, Loaded sampleBlock, Unloaded (pairBlock 1 200)]"

text \<open>
  Sample content: a heap in which the surface at address \<open>p\<close> has the albedo texture
  \<open>p\<close> with sampler descriptor \<open>p\<close>, and a content block of one mesh with the
  surfaces 1 to 11.
\<close>

definition manySamplersHeap :: Heap where
  "manySamplersHeap =
     \<lparr>surfaceAt = (\<lambda>p. sampleSurface 0x3 (albedoMaterial p p)),
      IsActive = (\<lambda>e. True),
      AnimationComponent = (\<lambda>e. None)\<rparr>"

definition manySamplersBlock :: ContentBlock where
  "manySamplersBlock = \<lparr>EntityDataBlocks = [\<lparr>Components = [MeshComponent 1 [1 ..< 12]]\<rparr>]\<rparr>"

text \<open>
  Sample content: a frame before upscaling with one shadow map, and a group of three
  surfaces of which the second has an inactive owner.
\<close>

definition sampleFrame :: FrameContext where
  "sampleFrame =
     \<lparr>GetBRDFLutTexture = Some 900, GetIBLTexture_Irradiance = None,
      GetIBLTexture_Prefiltered = None, GetScreenSpaceShadowTexture = None,
      ShadowMapRenderTargets = [901],
      GetUpscalingState = UpscalerState_PreUpscale,
      GetResolutionInfo = \<lparr>RenderWidth = 1280, RenderHeight = 720,
                            UpscaleWidth = 2560, UpscaleHeight = 1440\<rparr>\<rparr>"

definition threeSurfaceGroup :: PipelineRenderGroup where
  "threeSurfaceGroup =
     sampleGroup 5 [\<lparr>pOwner = 1, pSurface = 100, TextureIndices = sampleIndices 0 (-1)\<rparr>,
                    \<lparr>pOwner = 3, pSurface = 300, TextureIndices = sampleIndices (-1) (-1)\<rparr>,
                    \<lparr>pOwner = 2, pSurface = 200, TextureIndices = sampleIndices 0 1\<rparr>]"





section \<open>Properties of the texture table\<close>

lemma scanTextures_found:
  "i \<le> k \<Longrightarrow> k < length textures \<Longrightarrow> pTexture (textures ! k) = t \<Longrightarrow>
   (\<And>j. i \<le> j \<Longrightarrow> j < k \<Longrightarrow> pTexture (textures ! j) \<noteq> t) \<Longrightarrow>
   scanTextures t textures i ff =
     Inl (textures[k := (textures ! k)\<lparr>count := count (textures ! k) + 1\<rparr>], int k)"
proof (induction t textures i ff rule: scanTextures.induct)
  case (1 t textures i ff)
  show ?case
  proof (cases "i = k")
    case True
    with "1.prems" show ?thesis by (simp add: scanTextures.simps [of t textures k] Let_def)
  next
    case False
    with "1.prems" have lt: "i < k" and ne: "pTexture (textures ! i) \<noteq> t" by auto
    from lt "1.prems" have il: "i < length textures" by simp
    have nxt: "\<And>j. i + 1 \<le> j \<Longrightarrow> j < k \<Longrightarrow> pTexture (textures ! j) \<noteq> t"
      using "1.prems"(4) by simp
    show ?thesis
    proof (cases "ff < 0 \<and> count (textures ! i) = 0")
      case True
      have "scanTextures t textures (i + 1) (int i) =
            Inl (textures[k := (textures ! k)\<lparr>count := count (textures ! k) + 1\<rparr>], int k)"
        using "1.IH"(1) [OF il refl _ True _ "1.prems"(2,3) nxt] ne lt by auto
      with il ne True show ?thesis by (subst scanTextures.simps) (auto simp: Let_def)
    next
      case False
      have "scanTextures t textures (i + 1) ff =
            Inl (textures[k := (textures ! k)\<lparr>count := count (textures ! k) + 1\<rparr>], int k)"
        using "1.IH"(2) [OF il refl _ False _ "1.prems"(2,3) nxt] ne lt by auto
      with il ne False show ?thesis by (subst scanTextures.simps) (auto simp: Let_def)
    qed
  qed
qed

lemma scanTextures_keep_free:
  "0 \<le> ff \<Longrightarrow> (\<And>j. i \<le> j \<Longrightarrow> j < length textures \<Longrightarrow> pTexture (textures ! j) \<noteq> t) \<Longrightarrow>
   scanTextures t textures i ff = Inr ff"
proof (induction t textures i ff rule: scanTextures.induct)
  case (1 t textures i ff)
  show ?case
  proof (cases "i < length textures")
    case False
    then show ?thesis by (subst scanTextures.simps) simp
  next
    case True
    have ne: "pTexture (textures ! i) \<noteq> t" using "1.prems"(2) [of i] True by simp
    have nf: "\<not> (ff < 0 \<and> count (textures ! i) = 0)" using "1.prems"(1) by simp
    have "scanTextures t textures (i + 1) ff = Inr ff"
      using "1.IH"(2) [OF True refl _ nf "1.prems"(1)] ne "1.prems"(2) by auto
    with True ne nf show ?thesis by (subst scanTextures.simps) (auto simp: Let_def)
  qed
qed

lemma scanTextures_no_free:
  "ff < 0 \<Longrightarrow> (\<And>j. i \<le> j \<Longrightarrow> j < length textures \<Longrightarrow> pTexture (textures ! j) \<noteq> t) \<Longrightarrow>
   (\<And>j. i \<le> j \<Longrightarrow> j < length textures \<Longrightarrow> count (textures ! j) \<noteq> 0) \<Longrightarrow>
   scanTextures t textures i ff = Inr ff"
proof (induction t textures i ff rule: scanTextures.induct)
  case (1 t textures i ff)
  show ?case
  proof (cases "i < length textures")
    case False
    then show ?thesis by (subst scanTextures.simps) simp
  next
    case True
    have ne: "pTexture (textures ! i) \<noteq> t" using "1.prems"(2) [of i] True by simp
    have nz: "count (textures ! i) \<noteq> 0" using "1.prems"(3) [of i] True by simp
    then have nf: "\<not> (ff < 0 \<and> count (textures ! i) = 0)" by simp
    have "scanTextures t textures (i + 1) ff = Inr ff"
      using "1.IH"(2) [OF True refl _ nf "1.prems"(1)] ne "1.prems"(2,3) by auto
    with True ne nf show ?thesis by (subst scanTextures.simps) (auto simp: Let_def)
  qed
qed

lemma scanTextures_first_free:
  "ff < 0 \<Longrightarrow> (\<And>j. i \<le> j \<Longrightarrow> j < length textures \<Longrightarrow> pTexture (textures ! j) \<noteq> t) \<Longrightarrow>
   i \<le> f \<Longrightarrow> f < length textures \<Longrightarrow> count (textures ! f) = 0 \<Longrightarrow>
   (\<And>j. i \<le> j \<Longrightarrow> j < f \<Longrightarrow> count (textures ! j) \<noteq> 0) \<Longrightarrow>
   scanTextures t textures i ff = Inr (int f)"
proof (induction t textures i ff rule: scanTextures.induct)
  case (1 t textures i ff)
  from "1.prems" have il: "i < length textures" by simp
  have ne: "pTexture (textures ! i) \<noteq> t" using "1.prems"(2) [of i] il by simp
  show ?case
  proof (cases "i = f")
    case True
    have "scanTextures t textures (f + 1) (int f) = Inr (int f)"
      using "1.prems"(2) True by (intro scanTextures_keep_free) auto
    with True il ne "1.prems"(1,5) show ?thesis
      by (subst scanTextures.simps) (auto simp: Let_def)
  next
    case False
    with "1.prems" have lt: "i < f" by simp
    have nz: "count (textures ! i) \<noteq> 0" using "1.prems"(6) [of i] lt by simp
    then have nf: "\<not> (ff < 0 \<and> count (textures ! i) = 0)" by simp
    have "scanTextures t textures (i + 1) ff = Inr (int f)"
      using "1.IH"(2) [OF il refl _ nf "1.prems"(1) _ _ "1.prems"(4,5)] ne lt "1.prems"(2,6) by auto
    with il ne nf show ?thesis by (subst scanTextures.simps) (auto simp: Let_def)
  qed
qed

lemma has_match_first:
  assumes "k < length textures" "pTexture (textures ! k) = t"
  obtains k0 where "k0 \<le> k" "pTexture (textures ! k0) = t" "\<And>j. j < k0 \<Longrightarrow> pTexture (textures ! j) \<noteq> t"
proof -
  define k0 where "k0 = (LEAST j. pTexture (textures ! j) = t)"
  have a: "pTexture (textures ! k0) = t" unfolding k0_def using assms(2) by (rule LeastI)
  have b: "k0 \<le> k" unfolding k0_def using assms(2) by (rule Least_le)
  have c: "\<And>j. j < k0 \<Longrightarrow> pTexture (textures ! j) \<noteq> t"
    unfolding k0_def using not_less_Least by blast
  from a b c show ?thesis using that by blast
qed

lemma has_free_first:
  assumes "k < length textures" "count (textures ! k) = 0"
  obtains f where "f \<le> k" "count (textures ! f) = 0" "\<And>j. j < f \<Longrightarrow> count (textures ! j) \<noteq> 0"
proof -
  define f where "f = (LEAST j. count (textures ! j) = 0)"
  have a: "count (textures ! f) = 0" unfolding f_def using assms(2) by (rule LeastI)
  have b: "f \<le> k" unfolding f_def using assms(2) by (rule Least_le)
  have c: "\<And>j. j < f \<Longrightarrow> count (textures ! j) \<noteq> 0"
    unfolding f_def using not_less_Least by blast
  from a b c show ?thesis using that by blast
qed

lemma AddTexture_none:
  "GetTextureInfo pMaterial textureClass = None \<Longrightarrow>
   AddTexture pMaterial textureClass si rm = (-1, si, rm)"
  by (simp add: AddTexture_def)

lemma AddTexture_found:
  assumes "GetTextureInfo pMaterial textureClass = Some ti"
    and "k < length (m_Textures rm)" and "pTexture (m_Textures rm ! k) = tiTexture ti"
    and "\<And>j. j < k \<Longrightarrow> pTexture (m_Textures rm ! j) \<noteq> tiTexture ti"
  shows "fst (AddTexture pMaterial textureClass si rm) = int k"
    and "m_Textures (snd (snd (AddTexture pMaterial textureClass si rm))) =
           (m_Textures rm)[k := (m_Textures rm ! k)\<lparr>count := count (m_Textures rm ! k) + 1\<rparr>]"
proof -
  have s: "scanTextures (tiTexture ti) (m_Textures rm) 0 (-1) =
        Inl ((m_Textures rm)[k := (m_Textures rm ! k)\<lparr>count := count (m_Textures rm ! k) + 1\<rparr>], int k)"
    using assms(2,3,4) by (intro scanTextures_found) auto
  show "fst (AddTexture pMaterial textureClass si rm) = int k"
    using assms(1) s by (simp add: AddTexture_def Let_def)
  show "m_Textures (snd (snd (AddTexture pMaterial textureClass si rm))) =
           (m_Textures rm)[k := (m_Textures rm ! k)\<lparr>count := count (m_Textures rm ! k) + 1\<rparr>]"
    using assms(1) s by (simp add: AddTexture_def Let_def)
qed

lemma AddTexture_reuse:
  assumes "GetTextureInfo pMaterial textureClass = Some ti"
    and "\<And>j. j < length (m_Textures rm) \<Longrightarrow> pTexture (m_Textures rm ! j) \<noteq> tiTexture ti"
    and "f < length (m_Textures rm)" and "count (m_Textures rm ! f) = 0"
    and "\<And>j. j < f \<Longrightarrow> count (m_Textures rm ! j) \<noteq> 0"
  shows "fst (AddTexture pMaterial textureClass si rm) = int f"
    and "m_Textures (snd (snd (AddTexture pMaterial textureClass si rm))) =
           (m_Textures rm)[f := \<lparr>pTexture = tiTexture ti, count = 1\<rparr>]"
proof -
  have s: "scanTextures (tiTexture ti) (m_Textures rm) 0 (-1) = Inr (int f)"
    using assms(2,3,4,5) by (intro scanTextures_first_free) auto
  show "fst (AddTexture pMaterial textureClass si rm) = int f"
    using assms(1) s by (simp add: AddTexture_def Let_def)
  show "m_Textures (snd (snd (AddTexture pMaterial textureClass si rm))) =
           (m_Textures rm)[f := \<lparr>pTexture = tiTexture ti, count = 1\<rparr>]"
    using assms(1) s by (simp add: AddTexture_def Let_def)
qed

lemma AddTexture_append:
  assumes "GetTextureInfo pMaterial textureClass = Some ti"
    and "\<And>j. j < length (m_Textures rm) \<Longrightarrow> pTexture (m_Textures rm ! j) \<noteq> tiTexture ti"
    and "\<And>j. j < length (m_Textures rm) \<Longrightarrow> count (m_Textures rm ! j) \<noteq> 0"
  shows "fst (AddTexture pMaterial textureClass si rm) = int (length (m_Textures rm))"
    and "m_Textures (snd (snd (AddTexture pMaterial textureClass si rm))) =
           m_Textures rm @ [\<lparr>pTexture = tiTexture ti, count = 1\<rparr>]"
proof -
  have s: "scanTextures (tiTexture ti) (m_Textures rm) 0 (-1) = Inr (-1)"
    using assms(2,3) by (intro scanTextures_no_free) auto
  show "fst (AddTexture pMaterial textureClass si rm) = int (length (m_Textures rm))"
    using assms(1) s by (simp add: AddTexture_def Let_def)
  show "m_Textures (snd (snd (AddTexture pMaterial textureClass si rm))) =
           m_Textures rm @ [\<lparr>pTexture = tiTexture ti, count = 1\<rparr>]"
    using assms(1) s by (simp add: AddTexture_def Let_def)
qed

text \<open>The four ways a call of AddTexture can end.\<close>

lemma AddTexture_cases:
  fixes rm pMaterial textureClass si
  defines "T \<equiv> m_Textures rm"
  defines "T' \<equiv> m_Textures (snd (snd (AddTexture pMaterial textureClass si rm)))"
  obtains (none) "GetTextureInfo pMaterial textureClass = None" "T' = T"
  | (found) ti k where "GetTextureInfo pMaterial textureClass = Some ti" "k < length T"
      "pTexture (T ! k) = tiTexture ti" "T' = T[k := (T ! k)\<lparr>count := count (T ! k) + 1\<rparr>]"
  | (reuse) ti f where "GetTextureInfo pMaterial textureClass = Some ti"
      "\<And>j. j < length T \<Longrightarrow> pTexture (T ! j) \<noteq> tiTexture ti"
      "f < length T" "count (T ! f) = 0" "T' = T[f := \<lparr>pTexture = tiTexture ti, count = 1\<rparr>]"
  | (append) ti where "GetTextureInfo pMaterial textureClass = Some ti"
      "\<And>j. j < length T \<Longrightarrow> pTexture (T ! j) \<noteq> tiTexture ti"
      "T' = T @ [\<lparr>pTexture = tiTexture ti, count = 1\<rparr>]"
proof (cases "GetTextureInfo pMaterial textureClass")
  case None
  then show ?thesis using none by (simp add: AddTexture_none T'_def T_def)
next
  case (Some ti)
  show ?thesis
  proof (cases "\<exists>k < length T. pTexture (T ! k) = tiTexture ti")
    case True
    then obtain k where k: "k < length T" "pTexture (T ! k) = tiTexture ti" by blast
    from has_match_first [OF this] obtain k0 where k0: "k0 \<le> k" "pTexture (T ! k0) = tiTexture ti"
      "\<And>j. j < k0 \<Longrightarrow> pTexture (T ! j) \<noteq> tiTexture ti" by blast
    have "k0 < length T" using k0(1) k(1) by simp
    then show ?thesis
      using found [of ti k0] Some k0 AddTexture_found(2) [of pMaterial textureClass ti k0 rm si]
      by (simp add: T_def T'_def)
  next
    case False
    then have nm: "\<And>j. j < length T \<Longrightarrow> pTexture (T ! j) \<noteq> tiTexture ti" by blast
    show ?thesis
    proof (cases "\<exists>f < length T. count (T ! f) = 0")
      case True
      then obtain f where f: "f < length T" "count (T ! f) = 0" by blast
      from has_free_first [OF this] obtain f0 where f0: "f0 \<le> f" "count (T ! f0) = 0"
        "\<And>j. j < f0 \<Longrightarrow> count (T ! j) \<noteq> 0" by blast
      have "f0 < length T" using f0(1) f(1) by simp
      then show ?thesis
        using reuse [of ti f0] Some nm f0 AddTexture_reuse(2) [of pMaterial textureClass ti rm f0 si]
        by (simp add: T_def T'_def)
    next
      case False
      then have "\<And>j. j < length T \<Longrightarrow> count (T ! j) \<noteq> 0" by blast
      then show ?thesis
        using append [of ti] Some nm AddTexture_append(2) [of pMaterial textureClass ti rm si]
        by (simp add: T_def T'_def)
    qed
  qed
qed

lemma RemoveTexture_negative: "index < 0 \<Longrightarrow> RemoveTexture index rm = Some rm"
  by (simp add: RemoveTexture_def)

lemma RemoveTexture_in_range:
  assumes "0 \<le> index" "nat index < length (m_Textures rm)"
  shows "\<exists>rm'. RemoveTexture index rm = Some rm' \<and>
          length (m_Textures rm') = length (m_Textures rm) \<and>
          count (m_Textures rm' ! nat index) = count (m_Textures rm ! nat index) - 1 \<and>
          pTexture (m_Textures rm' ! nat index) =
            (if count (m_Textures rm ! nat index) = 1 then None else pTexture (m_Textures rm ! nat index)) \<and>
          (\<forall>j. j \<noteq> nat index \<longrightarrow> m_Textures rm' ! j = m_Textures rm ! j) \<and>
          m_Samplers rm' = m_Samplers rm \<and> m_PipelineRenderGroups rm' = m_PipelineRenderGroups rm"
  using assms by (auto simp: RemoveTexture_def Let_def)

lemma texDistinct_same_textures:
  assumes "texDistinct T" "length T' = length T"
    and "\<And>i. i < length T \<Longrightarrow> pTexture (T' ! i) = pTexture (T ! i) \<or> pTexture (T' ! i) = None"
  shows "texDistinct T'"
  unfolding texDistinct_def
proof (intro allI impI, elim conjE)
  fix i j
  assume i: "i < length T'" and j: "j < length T'"
    and eq: "pTexture (T' ! i) = pTexture (T' ! j)" and nn: "pTexture (T' ! i) \<noteq> None"
  from assms(3) [of i] i nn assms(2) have ei: "pTexture (T' ! i) = pTexture (T ! i)" by auto
  from assms(3) [of j] j nn eq assms(2) have ej: "pTexture (T' ! j) = pTexture (T ! j)" by auto
  from assms(1) i j assms(2) eq nn ei ej show "i = j"
    unfolding texDistinct_def by metis
qed

lemma texDistinct_update:
  assumes "texDistinct T" "f < length T"
    and "\<And>j. j < length T \<Longrightarrow> pTexture (T ! j) \<noteq> pTexture b"
  shows "texDistinct (T[f := b])"
  unfolding texDistinct_def
proof (intro allI impI, elim conjE)
  fix i j
  assume i: "i < length (T[f := b])" and j: "j < length (T[f := b])"
    and eq: "pTexture (T[f := b] ! i) = pTexture (T[f := b] ! j)"
    and nn: "pTexture (T[f := b] ! i) \<noteq> None"
  show "i = j"
  proof (cases "i = f")
    case True
    then have "pTexture (T[f := b] ! i) = pTexture b" using assms(2) by simp
    with eq have "pTexture (T[f := b] ! j) = pTexture b" by simp
    then have "j = f" using assms(3) [of j] j by (cases "j = f") simp_all
    with True show ?thesis by simp
  next
    case False
    then have ei: "pTexture (T[f := b] ! i) = pTexture (T ! i)" by simp
    have jf: "j \<noteq> f"
    proof
      assume "j = f"
      then have "pTexture (T[f := b] ! j) = pTexture b" using assms(2) by simp
      with eq ei assms(3) [of i] i show False by simp
    qed
    then have ej: "pTexture (T[f := b] ! j) = pTexture (T ! j)" by simp
    from assms(1) i j eq nn ei ej show ?thesis
      unfolding texDistinct_def by (metis length_list_update)
  qed
qed

lemma texDistinct_append:
  assumes "texDistinct T"
    and "\<And>j. j < length T \<Longrightarrow> pTexture (T ! j) \<noteq> pTexture b"
  shows "texDistinct (T @ [b])"
  unfolding texDistinct_def
proof (intro allI impI, elim conjE)
  fix i j
  assume i: "i < length (T @ [b])" and j: "j < length (T @ [b])"
    and eq: "pTexture ((T @ [b]) ! i) = pTexture ((T @ [b]) ! j)"
    and nn: "pTexture ((T @ [b]) ! i) \<noteq> None"
  show "i = j"
  proof (cases "i < length T")
    case True
    then have ei: "(T @ [b]) ! i = T ! i" by (simp add: nth_append)
    show ?thesis
    proof (cases "j < length T")
      case jT: True
      then have ej: "(T @ [b]) ! j = T ! j" by (simp add: nth_append)
      from assms(1) True jT eq nn ei ej show ?thesis
        unfolding texDistinct_def by metis
    next
      case False
      with j have "j = length T" by simp
      then have "(T @ [b]) ! j = b" by simp
      with eq ei assms(2) [of i] True show ?thesis by simp
    qed
  next
    case False
    with i have il: "i = length T" by simp
    then have ei: "(T @ [b]) ! i = b" by simp
    show ?thesis
    proof (cases "j < length T")
      case True
      then have "(T @ [b]) ! j = T ! j" by (simp add: nth_append)
      with eq ei assms(2) [of j] True show ?thesis by simp
    next
      case False
      with j il show ?thesis by simp
    qed
  qed
qed

lemma texDistinct_AddTexture:
  assumes "texDistinct (m_Textures rm)"
  shows "texDistinct (m_Textures (snd (snd (AddTexture pMaterial textureClass si rm))))"
proof (cases rule: AddTexture_cases [of pMaterial textureClass si rm])
  case none
  with assms show ?thesis by simp
next
  case (found ti k)
  show ?thesis unfolding found(4)
    using found(2) by (intro texDistinct_same_textures [OF assms]) (auto simp: nth_list_update)
next
  case (reuse ti f)
  show ?thesis unfolding reuse(5)
    by (rule texDistinct_update [OF assms reuse(3)]) (simp add: reuse(2))
next
  case (append ti)
  show ?thesis unfolding append(3)
    by (rule texDistinct_append [OF assms]) (simp add: append(2))
qed

lemma texDistinct_RemoveTexture:
  assumes "texDistinct (m_Textures rm)" "RemoveTexture index rm = Some rm'"
  shows "texDistinct (m_Textures rm')"
proof (cases "index < 0")
  case True
  with assms show ?thesis by (simp add: RemoveTexture_negative)
next
  case False
  with assms(2) have r: "0 \<le> index" "nat index < length (m_Textures rm)"
    by (auto simp: RemoveTexture_def split: if_splits)
  from RemoveTexture_in_range [OF r] assms(2)
  have l: "length (m_Textures rm') = length (m_Textures rm)"
    and p: "pTexture (m_Textures rm' ! nat index) =
            (if count (m_Textures rm ! nat index) = 1 then None else pTexture (m_Textures rm ! nat index))"
    and o: "\<And>j. j \<noteq> nat index \<Longrightarrow> m_Textures rm' ! j = m_Textures rm ! j"
    by auto
  show ?thesis
  proof (rule texDistinct_same_textures [OF assms(1) l])
    fix i assume "i < length (m_Textures rm)"
    show "pTexture (m_Textures rm' ! i) = pTexture (m_Textures rm ! i) \<or> pTexture (m_Textures rm' ! i) = None"
      using p o [of i] by (cases "i = nat index") auto
  qed
qed

lemma texDistinct_applyTableOps:
  "texDistinct (m_Textures rm) \<Longrightarrow> applyTableOps ops rm = Some rm' \<Longrightarrow> texDistinct (m_Textures rm')"
proof (induction ops rm rule: applyTableOps.induct)
  case (1 rm)
  then show ?case by simp
next
  case (2 pMaterial textureClass si ops rm)
  then show ?case using texDistinct_AddTexture by simp
next
  case (3 index ops rm)
  then show ?case using texDistinct_RemoveTexture by (auto split: option.splits)
qed

lemma texDistinct_reachable:
  "applyTableOps ops (initModule vs mv) = Some rm \<Longrightarrow> texDistinct (m_Textures rm)"
  by (rule texDistinct_applyTableOps [of "initModule vs mv"]) (simp_all add: texDistinct_def initModule_def)

text \<open>
  Claim C1. In every module reached from the empty tables by calls of AddTexture and
  RemoveTexture: (1) AddTexture for a material whose (non-null) texture object is bound
  in slot \<open>k\<close> returns \<open>k\<close> and changes the table only by adding 1 to the count of slot
  \<open>k\<close>, so no entry is added; (2) RemoveTexture on an index inside the table subtracts 1
  from the count of that slot and leaves every other slot as it is; (3) AddTexture for
  a texture bound in no slot overwrites the first slot of count 0 in scan order when
  there is one, and appends only when there is none; (4) a slot whose count is not 0
  is never overwritten by AddTexture. Counts are \<^verbatim>\<open>uint32_t\<close>: adding and
  subtracting 1 is that of 32-bit unsigned arithmetic.
\<close>

theorem AddTexture_RemoveTexture_reference_counts:
  assumes reach: "applyTableOps ops (initModule vs mv) = Some rm"
  shows
   "(GetTextureInfo mA cA = Some tiA \<and> tiTexture tiA \<noteq> None \<and> k < length (m_Textures rm) \<and>
       pTexture (m_Textures rm ! k) = tiTexture tiA \<longrightarrow>
         fst (AddTexture mA cA sA rm) = int k \<and>
         m_Textures (snd (snd (AddTexture mA cA sA rm))) =
           (m_Textures rm)[k := (m_Textures rm ! k)\<lparr>count := count (m_Textures rm ! k) + 1\<rparr>]) \<and>
    (0 \<le> index \<and> nat index < length (m_Textures rm) \<longrightarrow>
       (\<exists>rm'. RemoveTexture index rm = Some rm' \<and>
          length (m_Textures rm') = length (m_Textures rm) \<and>
          count (m_Textures rm' ! nat index) = count (m_Textures rm ! nat index) - 1 \<and>
          (\<forall>j. j \<noteq> nat index \<longrightarrow> m_Textures rm' ! j = m_Textures rm ! j))) \<and>
    (GetTextureInfo mB cB = Some tiB \<and>
       (\<forall>j < length (m_Textures rm). pTexture (m_Textures rm ! j) \<noteq> tiTexture tiB) \<longrightarrow>
         (\<forall>f. f < length (m_Textures rm) \<and> count (m_Textures rm ! f) = 0 \<and>
               (\<forall>j < f. count (m_Textures rm ! j) \<noteq> 0) \<longrightarrow>
               fst (AddTexture mB cB sB rm) = int f \<and>
               m_Textures (snd (snd (AddTexture mB cB sB rm))) =
                 (m_Textures rm)[f := \<lparr>pTexture = tiTexture tiB, count = 1\<rparr>]) \<and>
         ((\<forall>j < length (m_Textures rm). count (m_Textures rm ! j) \<noteq> 0) \<longrightarrow>
               fst (AddTexture mB cB sB rm) = int (length (m_Textures rm)) \<and>
               m_Textures (snd (snd (AddTexture mB cB sB rm))) =
                 m_Textures rm @ [\<lparr>pTexture = tiTexture tiB, count = 1\<rparr>])) \<and>
    (\<forall>j < length (m_Textures rm). count (m_Textures rm ! j) \<noteq> 0 \<longrightarrow>
       j < length (m_Textures (snd (snd (AddTexture mC cC sC rm)))) \<and>
       pTexture (m_Textures (snd (snd (AddTexture mC cC sC rm))) ! j) = pTexture (m_Textures rm ! j))"
proof (intro conjI impI allI)
  assume a: "GetTextureInfo mA cA = Some tiA \<and> tiTexture tiA \<noteq> None \<and> k < length (m_Textures rm) \<and>
       pTexture (m_Textures rm ! k) = tiTexture tiA"
  have d: "texDistinct (m_Textures rm)" using reach by (rule texDistinct_reachable)
  have first: "\<And>j. j < k \<Longrightarrow> pTexture (m_Textures rm ! j) \<noteq> tiTexture tiA"
  proof
    fix j assume "j < k" and "pTexture (m_Textures rm ! j) = tiTexture tiA"
    with a d have "j = k" unfolding texDistinct_def
      by (metis less_trans)
    with \<open>j < k\<close> show False by simp
  qed
  from a first show "fst (AddTexture mA cA sA rm) = int k"
    by (intro AddTexture_found(1) [where ti = tiA]) auto
  from a first show "m_Textures (snd (snd (AddTexture mA cA sA rm))) =
           (m_Textures rm)[k := (m_Textures rm ! k)\<lparr>count := count (m_Textures rm ! k) + 1\<rparr>]"
    by (intro AddTexture_found(2) [where ti = tiA]) auto
next
  assume "0 \<le> index \<and> nat index < length (m_Textures rm)"
  then have "0 \<le> index" "nat index < length (m_Textures rm)" by auto
  from RemoveTexture_in_range [OF this]
  show "\<exists>rm'. RemoveTexture index rm = Some rm' \<and>
          length (m_Textures rm') = length (m_Textures rm) \<and>
          count (m_Textures rm' ! nat index) = count (m_Textures rm ! nat index) - 1 \<and>
          (\<forall>j. j \<noteq> nat index \<longrightarrow> m_Textures rm' ! j = m_Textures rm ! j)"
    by blast
next
  fix f
  assume a: "GetTextureInfo mB cB = Some tiB \<and>
       (\<forall>j < length (m_Textures rm). pTexture (m_Textures rm ! j) \<noteq> tiTexture tiB)"
    and b: "f < length (m_Textures rm) \<and> count (m_Textures rm ! f) = 0 \<and>
               (\<forall>j < f. count (m_Textures rm ! j) \<noteq> 0)"
  from a b show "fst (AddTexture mB cB sB rm) = int f"
    by (intro AddTexture_reuse(1) [where ti = tiB]) auto
  from a b show "m_Textures (snd (snd (AddTexture mB cB sB rm))) =
                 (m_Textures rm)[f := \<lparr>pTexture = tiTexture tiB, count = 1\<rparr>]"
    by (intro AddTexture_reuse(2) [where ti = tiB]) auto
next
  assume a: "GetTextureInfo mB cB = Some tiB \<and>
       (\<forall>j < length (m_Textures rm). pTexture (m_Textures rm ! j) \<noteq> tiTexture tiB)"
    and b: "\<forall>j < length (m_Textures rm). count (m_Textures rm ! j) \<noteq> 0"
  from a b show "fst (AddTexture mB cB sB rm) = int (length (m_Textures rm))"
    by (intro AddTexture_append(1) [where ti = tiB]) auto
  from a b show "m_Textures (snd (snd (AddTexture mB cB sB rm))) =
                 m_Textures rm @ [\<lparr>pTexture = tiTexture tiB, count = 1\<rparr>]"
    by (intro AddTexture_append(2) [where ti = tiB]) auto
next
  fix j
  assume j: "j < length (m_Textures rm)" and nz: "count (m_Textures rm ! j) \<noteq> 0"
  show "j < length (m_Textures (snd (snd (AddTexture mC cC sC rm))))"
    using j by (cases rule: AddTexture_cases [of mC cC sC rm]) auto
  show "pTexture (m_Textures (snd (snd (AddTexture mC cC sC rm))) ! j) = pTexture (m_Textures rm ! j)"
  proof (cases rule: AddTexture_cases [of mC cC sC rm])
    case none
    then show ?thesis by simp
  next
    case (found ti k)
    then show ?thesis using j by (cases "j = k") simp_all
  next
    case (reuse ti f)
    then show ?thesis using j nz by (cases "j = f") auto
  next
    case (append ti)
    then show ?thesis using j by (simp add: nth_append)
  qed
qed

lemmas table_eval =
  initModule_def AddTexture_def albedoMaterial_def scanTextures.simps findSampler.simps
  RemoveTexture_def CreateSampler_def Let_def

theorem AddTexture_RemoveTexture_reference_counts_witness:
  "applyTableOps sampleOps (initModule False False) = Some sampleModule \<and>
   fst (AddTexture (albedoMaterial 20 7) Albedo 0 sampleModule) = 1 \<and>
   m_Textures (snd (snd (AddTexture (albedoMaterial 20 7) Albedo 0 sampleModule))) =
     [\<lparr>pTexture = None, count = 0\<rparr>, \<lparr>pTexture = Some 20, count = 2\<rparr>] \<and>
   (\<exists>rm'. RemoveTexture 1 sampleModule = Some rm' \<and> count (m_Textures rm' ! 1) = 0) \<and>
   fst (AddTexture (albedoMaterial 30 7) Albedo 0 sampleModule) = 0 \<and>
   m_Textures (snd (snd (AddTexture (albedoMaterial 30 7) Albedo 0 sampleModule))) =
     [\<lparr>pTexture = Some 30, count = 1\<rparr>, \<lparr>pTexture = Some 20, count = 1\<rparr>] \<and>
   pTexture (m_Textures (snd (snd (AddTexture (albedoMaterial 30 7) Albedo 0 sampleModule))) ! 1) = Some 20"
proof -
  have r: "applyTableOps sampleOps (initModule False False) = Some sampleModule"
    by (simp add: sampleOps_def sampleModule_def table_eval)
  note t = AddTexture_RemoveTexture_reference_counts [OF r,
      where mA = "albedoMaterial 20 7" and cA = Albedo and sA = 0 and k = 1
        and tiA = "\<lparr>tiTexture = Some 20, TexSamplerDesc = 7, UVSet = 0\<rparr>"
        and index = 1
        and mB = "albedoMaterial 30 7" and cB = Albedo and sB = 0
        and tiB = "\<lparr>tiTexture = Some 30, TexSamplerDesc = 7, UVSet = 0\<rparr>"
        and mC = "albedoMaterial 30 7" and cC = Albedo and sC = 0]
  have hA: "GetTextureInfo (albedoMaterial 20 7) Albedo =
              Some \<lparr>tiTexture = Some 20, TexSamplerDesc = 7, UVSet = 0\<rparr> \<and>
            tiTexture \<lparr>tiTexture = Some 20, TexSamplerDesc = 7, UVSet = 0\<rparr> \<noteq> None \<and>
            1 < length (m_Textures sampleModule) \<and>
            pTexture (m_Textures sampleModule ! 1) =
              tiTexture \<lparr>tiTexture = Some 20, TexSamplerDesc = 7, UVSet = 0\<rparr>"
    by (simp add: sampleModule_def albedoMaterial_def)
  have hR: "(0::int) \<le> 1 \<and> nat 1 < length (m_Textures sampleModule)"
    by (simp add: sampleModule_def)
  have hB: "GetTextureInfo (albedoMaterial 30 7) Albedo =
              Some \<lparr>tiTexture = Some 30, TexSamplerDesc = 7, UVSet = 0\<rparr> \<and>
            (\<forall>j < length (m_Textures sampleModule). pTexture (m_Textures sampleModule ! j) \<noteq>
               tiTexture \<lparr>tiTexture = Some 30, TexSamplerDesc = 7, UVSet = 0\<rparr>)"
    by (simp add: sampleModule_def albedoMaterial_def less_Suc_eq)
  have hF: "0 < length (m_Textures sampleModule) \<and> count (m_Textures sampleModule ! 0) = 0 \<and>
            (\<forall>j < (0::nat). count (m_Textures sampleModule ! j) \<noteq> 0)"
    by (simp add: sampleModule_def)
  have hC: "1 < length (m_Textures sampleModule) \<and> count (m_Textures sampleModule ! 1) \<noteq> 0"
    by (simp add: sampleModule_def)
  from t hA have cA: "fst (AddTexture (albedoMaterial 20 7) Albedo 0 sampleModule) = int 1"
    "m_Textures (snd (snd (AddTexture (albedoMaterial 20 7) Albedo 0 sampleModule))) =
       (m_Textures sampleModule)[1 := (m_Textures sampleModule ! 1)
          \<lparr>count := count (m_Textures sampleModule ! 1) + 1\<rparr>]"
    by blast+
  from t hR obtain rm' where cR: "RemoveTexture 1 sampleModule = Some rm'"
    "count (m_Textures rm' ! nat 1) = count (m_Textures sampleModule ! nat 1) - 1"
    by blast
  from t hB hF have cB: "fst (AddTexture (albedoMaterial 30 7) Albedo 0 sampleModule) = int 0"
    "m_Textures (snd (snd (AddTexture (albedoMaterial 30 7) Albedo 0 sampleModule))) =
       (m_Textures sampleModule)[0 := \<lparr>pTexture = tiTexture \<lparr>tiTexture = Some 30, TexSamplerDesc = 7, UVSet = 0\<rparr>, count = 1\<rparr>]"
    by blast+
  from t hC have cC: "pTexture (m_Textures (snd (snd (AddTexture (albedoMaterial 30 7) Albedo 0 sampleModule))) ! 1) =
      pTexture (m_Textures sampleModule ! 1)"
    by blast
  from cR have cR': "\<exists>rm'. RemoveTexture 1 sampleModule = Some rm' \<and> count (m_Textures rm' ! 1) = 0"
    by (simp add: sampleModule_def)
  from r cA cB cC cR' show ?thesis by (simp add: sampleModule_def)
qed

text \<open>
  Claim C6. For a material that has no texture of the requested class, AddTexture
  returns the sentinel \<open>-1\<close> and gives back the module and the sampler index it was
  called with, unchanged. RemoveTexture on \<open>-1\<close>, or on any negative index, returns the
  module unchanged.
\<close>

theorem sentinel_index_changes_nothing:
  "(GetTextureInfo pMaterial textureClass = None \<longrightarrow>
      AddTexture pMaterial textureClass si rm = (-1, si, rm)) \<and>
   (index < 0 \<longrightarrow> RemoveTexture index rm = Some rm)"
  by (simp add: AddTexture_none RemoveTexture_negative)

theorem sentinel_index_changes_nothing_witness:
  "GetTextureInfo (albedoMaterial 20 7) Normal = None \<and>
   AddTexture (albedoMaterial 20 7) Normal 5 sampleModule = (-1, 5, sampleModule) \<and>
   (-1 :: int) < 0 \<and> RemoveTexture (-1) sampleModule = Some sampleModule"
proof -
  have h: "GetTextureInfo (albedoMaterial 20 7) Normal = None"
    by (simp add: albedoMaterial_def)
  have n: "(-1 :: int) < 0" by simp
  from sentinel_index_changes_nothing [of "albedoMaterial 20 7" Normal 5 sampleModule "-1"] h n
  show ?thesis by blast
qed

lemma unat_minus_1_u32: "unat (- 1 :: u32) = 4294967295"
  by (simp add: unsigned_minus_1_eq_mask mask_eq_exp_minus_1)

lemma AddTexture_keeps_used_slot:
  assumes "j < length (m_Textures rm)" "count (m_Textures rm ! j) \<noteq> 0"
  shows "pTexture (m_Textures (snd (snd (AddTexture pMaterial textureClass si rm))) ! j) =
         pTexture (m_Textures rm ! j)"
proof (cases rule: AddTexture_cases [of pMaterial textureClass si rm])
  case none
  then show ?thesis by simp
next
  case (found ti k)
  then show ?thesis using assms by (cases "j = k") simp_all
next
  case (reuse ti f)
  then show ?thesis using assms by (cases "j = f") auto
next
  case (append ti)
  then show ?thesis using assms by (simp add: nth_append)
qed

text \<open>
  Claim C10. RemoveTexture subtracts 1 from the count of every slot inside the table,
  whatever the count is. On a slot whose count is already 0 the 32-bit count wraps to
  4294967295, and the slot is then never overwritten by a later AddTexture: it is lost
  for reuse. On a slot whose count is at least 1 the count goes down by exactly 1
  as a number, and a slot whose count was 1 becomes a free slot (null texture, count 0).
\<close>

theorem RemoveTexture_count_wraps:
  assumes "0 \<le> index" "nat index < length (m_Textures rm)"
  shows "\<exists>rm'. RemoveTexture index rm = Some rm' \<and>
     count (m_Textures rm' ! nat index) = count (m_Textures rm ! nat index) - 1 \<and>
     (count (m_Textures rm ! nat index) = 0 \<longrightarrow>
        unat (count (m_Textures rm' ! nat index)) = 4294967295 \<and>
        pTexture (m_Textures (snd (snd (AddTexture pMaterial textureClass si rm'))) ! nat index) =
          pTexture (m_Textures rm ! nat index)) \<and>
     (count (m_Textures rm ! nat index) \<noteq> 0 \<longrightarrow>
        unat (count (m_Textures rm' ! nat index)) = unat (count (m_Textures rm ! nat index)) - 1 \<and>
        (count (m_Textures rm ! nat index) = 1 \<longrightarrow>
           m_Textures rm' ! nat index = \<lparr>pTexture = None, count = 0\<rparr>))"
proof -
  from RemoveTexture_in_range [OF assms] obtain rm' where
    r: "RemoveTexture index rm = Some rm'"
    and l: "length (m_Textures rm') = length (m_Textures rm)"
    and c: "count (m_Textures rm' ! nat index) = count (m_Textures rm ! nat index) - 1"
    and p: "pTexture (m_Textures rm' ! nat index) =
            (if count (m_Textures rm ! nat index) = 1 then None else pTexture (m_Textures rm ! nat index))"
    by blast
  have z: "count (m_Textures rm ! nat index) = 0 \<Longrightarrow>
        unat (count (m_Textures rm' ! nat index)) = 4294967295 \<and>
        pTexture (m_Textures (snd (snd (AddTexture pMaterial textureClass si rm'))) ! nat index) =
          pTexture (m_Textures rm ! nat index)"
  proof -
    assume z0: "count (m_Textures rm ! nat index) = 0"
    with c have c': "count (m_Textures rm' ! nat index) = - 1" by simp
    then have nz: "count (m_Textures rm' ! nat index) \<noteq> 0" by simp
    have "pTexture (m_Textures (snd (snd (AddTexture pMaterial textureClass si rm'))) ! nat index) =
          pTexture (m_Textures rm' ! nat index)"
      using assms(2) l nz by (intro AddTexture_keeps_used_slot) simp_all
    with p z0 c' show ?thesis by (simp add: unat_minus_1_u32)
  qed
  have n: "count (m_Textures rm ! nat index) \<noteq> 0 \<Longrightarrow>
        unat (count (m_Textures rm' ! nat index)) = unat (count (m_Textures rm ! nat index)) - 1 \<and>
        (count (m_Textures rm ! nat index) = 1 \<longrightarrow>
           m_Textures rm' ! nat index = \<lparr>pTexture = None, count = 0\<rparr>)"
    using c p by (auto simp: unat_minus_one)
  from r c z n show ?thesis by blast
qed

theorem RemoveTexture_count_wraps_witness:
  "RemoveTexture 0 sampleModule = Some wrappedModule \<and>
   unat (count (m_Textures wrappedModule ! 0)) = 4294967295 \<and>
   fst (AddTexture (albedoMaterial 30 7) Albedo 0 wrappedModule) = 2 \<and>
   pTexture (m_Textures (snd (snd (AddTexture (albedoMaterial 30 7) Albedo 0 wrappedModule))) ! 0) = None \<and>
   (\<exists>rm'. RemoveTexture 1 sampleModule = Some rm' \<and>
      m_Textures rm' ! 1 = \<lparr>pTexture = None, count = 0\<rparr>)"
proof -
  have h0: "(0::int) \<le> 0" "nat 0 < length (m_Textures sampleModule)"
    by (simp_all add: sampleModule_def)
  have h1: "(0::int) \<le> 1" "nat 1 < length (m_Textures sampleModule)"
    by (simp_all add: sampleModule_def)
  have e: "RemoveTexture 0 sampleModule = Some wrappedModule"
    by (simp add: sampleModule_def wrappedModule_def RemoveTexture_def Let_def)
  have z: "count (m_Textures sampleModule ! nat 0) = 0" by (simp add: sampleModule_def)
  have o: "count (m_Textures sampleModule ! nat 1) \<noteq> 0" "count (m_Textures sampleModule ! nat 1) = 1"
    by (simp_all add: sampleModule_def)
  from RemoveTexture_count_wraps [OF h0, of "albedoMaterial 30 7" Albedo 0] e z
  have a: "unat (count (m_Textures wrappedModule ! nat 0)) = 4294967295"
    "pTexture (m_Textures (snd (snd (AddTexture (albedoMaterial 30 7) Albedo 0 wrappedModule))) ! nat 0) =
       pTexture (m_Textures sampleModule ! nat 0)"
    by auto
  from RemoveTexture_count_wraps [OF h1, of "albedoMaterial 30 7" Albedo 0] o
  have b: "\<exists>rm'. RemoveTexture 1 sampleModule = Some rm' \<and>
      m_Textures rm' ! nat 1 = \<lparr>pTexture = None, count = 0\<rparr>"
    by blast
  have c: "fst (AddTexture (albedoMaterial 30 7) Albedo 0 wrappedModule) = 2"
    by (simp add: wrappedModule_def table_eval)
  from e a b c show ?thesis by (simp add: sampleModule_def)
qed

section \<open>Properties of unloading\<close>


lemma RemoveTexture_Some_fields:
  assumes "RemoveTexture index rm = Some rm'"
  shows "length (m_Textures rm') = length (m_Textures rm)"
    and "m_PipelineRenderGroups rm' = m_PipelineRenderGroups rm"
    and "m_Samplers rm' = m_Samplers rm"
    and "m_GenerateMotionVectors rm' = m_GenerateMotionVectors rm"
  using assms by (auto simp: RemoveTexture_def Let_def split: if_splits)

lemma removeTextures_Some_fields:
  assumes "removeTextures ti rm = Some rm'"
  shows "length (m_Textures rm') = length (m_Textures rm)"
    and "m_PipelineRenderGroups rm' = m_PipelineRenderGroups rm"
    and "m_Samplers rm' = m_Samplers rm"
    and "m_GenerateMotionVectors rm' = m_GenerateMotionVectors rm"
proof -
  from assms obtain r1 r2 r3 r4 where
    "RemoveTexture (AlbedoTextureIndex ti) rm = Some r1"
    "RemoveTexture (MetalRoughSpecGlossTextureIndex ti) r1 = Some r2"
    "RemoveTexture (NormalTextureIndex ti) r2 = Some r3"
    "RemoveTexture (EmissiveTextureIndex ti) r3 = Some r4"
    "RemoveTexture (OcclusionTextureIndex ti) r4 = Some rm'"
    by (auto simp: removeTextures_def Option.bind_eq_Some_conv)
  note r = this [THEN RemoveTexture_Some_fields(1)] this [THEN RemoveTexture_Some_fields(2)]
     this [THEN RemoveTexture_Some_fields(3)] this [THEN RemoveTexture_Some_fields(4)]
  show "length (m_Textures rm') = length (m_Textures rm)" using r by simp
  show "m_PipelineRenderGroups rm' = m_PipelineRenderGroups rm" using r by simp
  show "m_Samplers rm' = m_Samplers rm" using r by simp
  show "m_GenerateMotionVectors rm' = m_GenerateMotionVectors rm" using r by simp
qed









section \<open>The invariant of the pipeline cache\<close>

lemma findPipelineGroup_Some:
  "findPipelineGroup groups h i = Some k \<Longrightarrow>
     i \<le> k \<and> k < length groups \<and> m_PipelineHash (groups ! k) = h \<and>
     (\<forall>j. i \<le> j \<and> j < k \<longrightarrow> m_PipelineHash (groups ! j) \<noteq> h)"
proof (induction groups h i rule: findPipelineGroup.induct)
  case (1 groups h i)
  show ?case
  proof (cases "i < length groups \<and> m_PipelineHash (groups ! i) \<noteq> h")
    case True
    with "1.prems" have "findPipelineGroup groups h (i + 1) = Some k"
      by (subst (asm) findPipelineGroup.simps) simp
    with "1.IH" True have ih: "i + 1 \<le> k \<and> k < length groups \<and> m_PipelineHash (groups ! k) = h \<and>
     (\<forall>j. i + 1 \<le> j \<and> j < k \<longrightarrow> m_PipelineHash (groups ! j) \<noteq> h)" by simp
    have "\<forall>j. i \<le> j \<and> j < k \<longrightarrow> m_PipelineHash (groups ! j) \<noteq> h"
    proof (intro allI impI)
      fix j assume j: "i \<le> j \<and> j < k"
      show "m_PipelineHash (groups ! j) \<noteq> h"
      proof (cases "j = i")
        case True with \<open>i < length groups \<and> m_PipelineHash (groups ! i) \<noteq> h\<close> show ?thesis by simp
      next
        case False with j ih show ?thesis by simp
      qed
    qed
    with ih show ?thesis by simp
  next
    case False
    with "1.prems" show ?thesis
      by (subst (asm) findPipelineGroup.simps) (auto split: if_splits)
  qed
qed

lemma findPipelineGroup_None:
  "findPipelineGroup groups h i = None \<Longrightarrow> i \<le> j \<Longrightarrow> j < length groups \<Longrightarrow>
     m_PipelineHash (groups ! j) \<noteq> h"
proof (induction groups h i rule: findPipelineGroup.induct)
  case (1 groups h i)
  from "1.prems" have il: "i < length groups" by simp
  from "1.prems"(1) il have ne: "m_PipelineHash (groups ! i) \<noteq> h"
    and nx: "findPipelineGroup groups h (i + 1) = None"
    by (subst (asm) findPipelineGroup.simps, simp split: if_splits)+
  show ?case
  proof (cases "j = i")
    case True with ne show ?thesis by simp
  next
    case False
    with "1.prems" have "i + 1 \<le> j" by simp
    from "1.IH" [OF il ne nx this "1.prems"(3)] show ?thesis .
  qed
qed


lemma AddTexture_other_fields:
  "m_PipelineRenderGroups (snd (snd (AddTexture pMaterial textureClass si rm))) = m_PipelineRenderGroups rm"
  "m_GenerateMotionVectors (snd (snd (AddTexture pMaterial textureClass si rm))) = m_GenerateMotionVectors rm"
  by (auto simp: AddTexture_def Let_def split: option.splits sum.splits)

lemma AddTexture_eq_fields:
  assumes "AddTexture pMaterial textureClass si rm = (i, si', rm')"
  shows "m_PipelineRenderGroups rm' = m_PipelineRenderGroups rm"
    and "m_GenerateMotionVectors rm' = m_GenerateMotionVectors rm"
  using AddTexture_other_fields [of pMaterial textureClass si rm] assms by simp_all

lemma cacheInv_same_groups:
  "cacheInv fw heap rm \<Longrightarrow> m_PipelineRenderGroups rm' = m_PipelineRenderGroups rm \<Longrightarrow>
   m_GenerateMotionVectors rm' = m_GenerateMotionVectors rm \<Longrightarrow> cacheInv fw heap rm'"
  by (simp add: cacheInv_def)

lemma GetPipelinePermutationID_inv:
  assumes "cacheInv fw heap rm" and "GetPipelinePermutationID fw heap surfacePtr rm = (g, rm')"
  shows "cacheInv fw heap rm'"
    and "g < length (m_PipelineRenderGroups rm')"
    and "m_PipelineHash (m_PipelineRenderGroups rm' ! g) =
           surfaceHash fw heap (m_GenerateMotionVectors rm) surfacePtr"
    and "m_GenerateMotionVectors rm' = m_GenerateMotionVectors rm"
    and "m_Textures rm' = m_Textures rm" and "m_Samplers rm' = m_Samplers rm"
proof -
  let ?h = "surfaceHash fw heap (m_GenerateMotionVectors rm) surfacePtr"
  let ?gs = "m_PipelineRenderGroups rm"
  have all: "cacheInv fw heap rm' \<and> g < length (m_PipelineRenderGroups rm') \<and>
      m_PipelineHash (m_PipelineRenderGroups rm' ! g) = ?h \<and>
      m_GenerateMotionVectors rm' = m_GenerateMotionVectors rm \<and>
      m_Textures rm' = m_Textures rm \<and> m_Samplers rm' = m_Samplers rm"
  proof (cases "findPipelineGroup ?gs ?h 0")
    case (Some k)
    with assms(2) have e: "g = k" "rm' = rm"
      by (auto simp: GetPipelinePermutationID_def surfaceHash_def Let_def)
    from findPipelineGroup_Some [OF Some] e assms(1) show ?thesis by simp
  next
    case None
    define grp where "grp = m_PipelineRenderGroups rm' ! length ?gs"
    from None assms(2) have e: "g = length ?gs"
      "m_PipelineRenderGroups rm' = ?gs @ [grp]"
      "m_PipelineHash grp = ?h" "m_RenderSurfaces grp = []"
      "m_GenerateMotionVectors rm' = m_GenerateMotionVectors rm"
      "m_Textures rm' = m_Textures rm" "m_Samplers rm' = m_Samplers rm"
      unfolding grp_def
      by (auto simp: GetPipelinePermutationID_def createPipelineGroup_def surfaceHash_def Let_def)
    have nh: "?h \<notin> m_PipelineHash ` set ?gs"
    proof
      assume "?h \<in> m_PipelineHash ` set ?gs"
      then obtain j where "j < length ?gs" "m_PipelineHash (?gs ! j) = ?h"
        by (auto simp: in_set_conv_nth)
      with findPipelineGroup_None [OF None, of j] show False by simp
    qed
    have "cacheInv fw heap rm'"
      using assms(1) e nh by (auto simp: cacheInv_def)
    with e show ?thesis by simp
  qed
  from all show "cacheInv fw heap rm'" "g < length (m_PipelineRenderGroups rm')"
    "m_PipelineHash (m_PipelineRenderGroups rm' ! g) = ?h"
    "m_GenerateMotionVectors rm' = m_GenerateMotionVectors rm"
    "m_Textures rm' = m_Textures rm" "m_Samplers rm' = m_Samplers rm"
    by simp_all
qed

lemma cacheInv_push_surface:
  assumes "cacheInv fw heap rm" and "g < length (m_PipelineRenderGroups rm)"
    and "m_PipelineHash (m_PipelineRenderGroups rm ! g) =
           surfaceHash fw heap (m_GenerateMotionVectors rm) (pSurface info)"
  shows "cacheInv fw heap
           (rm\<lparr>m_PipelineRenderGroups :=
                 (m_PipelineRenderGroups rm)[g := (m_PipelineRenderGroups rm ! g)
                    \<lparr>m_RenderSurfaces := m_RenderSurfaces (m_PipelineRenderGroups rm ! g) @ [info]\<rparr>]\<rparr>)"
proof -
  let ?gs = "m_PipelineRenderGroups rm"
  let ?g' = "(?gs ! g)\<lparr>m_RenderSurfaces := m_RenderSurfaces (?gs ! g) @ [info]\<rparr>"
  have m: "map m_PipelineHash (?gs[g := ?g']) = map m_PipelineHash ?gs"
    using assms(2) by (simp add: map_update list_update_same_conv)
  have "\<forall>x \<in> set (m_RenderSurfaces y).
          m_PipelineHash y = surfaceHash fw heap (m_GenerateMotionVectors rm) (pSurface x)"
    if "y \<in> set (?gs[g := ?g'])" for y
  proof -
    from that have "y = ?g' \<or> y \<in> set ?gs"
      using set_update_subset_insert [of ?gs g ?g'] by auto
    then show ?thesis
    proof
      assume y: "y = ?g'"
      have "?gs ! g \<in> set ?gs" using assms(2) by simp
      with assms(1,3) y show ?thesis by (auto simp: cacheInv_def)
    next
      assume "y \<in> set ?gs"
      with assms(1) show ?thesis by (simp add: cacheInv_def)
    qed
  qed
  with m assms(1) show ?thesis by (simp add: cacheInv_def)
qed

lemma resolveTextures_fields:
  "m_PipelineRenderGroups (snd (resolveTextures fw pMaterial rm)) = m_PipelineRenderGroups rm"
  "m_GenerateMotionVectors (snd (resolveTextures fw pMaterial rm)) = m_GenerateMotionVectors rm"
  by (simp_all add: resolveTextures_def Let_def case_prod_beta AddTexture_other_fields)

lemma cacheInv_loadSurface:
  assumes "cacheInv fw heap rm"
  shows "cacheInv fw heap (loadSurface fw heap owner surfacePtr rm)"
    and "m_GenerateMotionVectors (loadSurface fw heap owner surfacePtr rm) = m_GenerateMotionVectors rm"
proof -
  have "cacheInv fw heap (loadSurface fw heap owner surfacePtr rm) \<and>
        m_GenerateMotionVectors (loadSurface fw heap owner surfacePtr rm) = m_GenerateMotionVectors rm"
  proof (cases "HasTranslucency (surfaceAt heap surfacePtr)")
    case True
    with assms show ?thesis by (simp add: loadSurface_def)
  next
    case False
    obtain ti rm1 where r: "resolveTextures fw (GetMaterial (surfaceAt heap surfacePtr)) rm = (ti, rm1)"
      by (cases "resolveTextures fw (GetMaterial (surfaceAt heap surfacePtr)) rm")
    obtain g rm2 where p: "GetPipelinePermutationID fw heap surfacePtr rm1 = (g, rm2)"
      by (cases "GetPipelinePermutationID fw heap surfacePtr rm1")
    from resolveTextures_fields [of fw "GetMaterial (surfaceAt heap surfacePtr)" rm] r
    have f1: "m_PipelineRenderGroups rm1 = m_PipelineRenderGroups rm"
      "m_GenerateMotionVectors rm1 = m_GenerateMotionVectors rm" by simp_all
    from assms f1 have i1: "cacheInv fw heap rm1" by (rule cacheInv_same_groups)
    note q = GetPipelinePermutationID_inv [OF i1 p]
    let ?info = "\<lparr>pOwner = owner, pSurface = surfacePtr, TextureIndices = ti\<rparr>"
    have e: "loadSurface fw heap owner surfacePtr rm =
       rm2\<lparr>m_PipelineRenderGroups :=
                 (m_PipelineRenderGroups rm2)[g := (m_PipelineRenderGroups rm2 ! g)
                    \<lparr>m_RenderSurfaces := m_RenderSurfaces (m_PipelineRenderGroups rm2 ! g) @ [?info]\<rparr>]\<rparr>"
      using False r p by (simp add: loadSurface_def Let_def)
    have "cacheInv fw heap (loadSurface fw heap owner surfacePtr rm)"
      unfolding e using q(1,2,3,4) by (intro cacheInv_push_surface) simp_all
    moreover have "m_GenerateMotionVectors (loadSurface fw heap owner surfacePtr rm) = m_GenerateMotionVectors rm"
      unfolding e using q(4) f1(2) by simp
    ultimately show ?thesis by simp
  qed
  then show "cacheInv fw heap (loadSurface fw heap owner surfacePtr rm)"
    and "m_GenerateMotionVectors (loadSurface fw heap owner surfacePtr rm) = m_GenerateMotionVectors rm"
    by simp_all
qed

lemma cacheInv_loadSurfaces:
  "cacheInv fw heap rm \<Longrightarrow>
   cacheInv fw heap (loadSurfaces fw heap owner ss rm) \<and>
   m_GenerateMotionVectors (loadSurfaces fw heap owner ss rm) = m_GenerateMotionVectors rm"
  by (induction ss arbitrary: rm) (simp_all add: cacheInv_loadSurface)

lemma cacheInv_loadComponents:
  "cacheInv fw heap rm \<Longrightarrow>
   cacheInv fw heap (loadComponents fw heap cs rm) \<and>
   m_GenerateMotionVectors (loadComponents fw heap cs rm) = m_GenerateMotionVectors rm"
proof (induction fw heap cs rm rule: loadComponents.induct)
  case (1 fw heap rm)
  then show ?case by simp
next
  case (2 fw heap owner mesh cs rm)
  from cacheInv_loadSurfaces [OF "2.prems", of owner mesh] "2.IH" show ?case by simp
next
  case (3 fw heap owner cs rm)
  then show ?case by simp
qed

lemma cacheInv_loadEntities:
  "cacheInv fw heap rm \<Longrightarrow>
   cacheInv fw heap (loadEntities fw heap es rm) \<and>
   m_GenerateMotionVectors (loadEntities fw heap es rm) = m_GenerateMotionVectors rm"
proof (induction es arbitrary: rm)
  case Nil
  then show ?case by simp
next
  case (Cons e es)
  from cacheInv_loadComponents [OF Cons.prems, of "Components e"] Cons.IH show ?case by simp
qed

lemma cacheInv_OnNewContentLoaded:
  "cacheInv fw heap rm \<Longrightarrow> OnNewContentLoaded fw heap b rm = Inr (rm', cmds) \<Longrightarrow>
   cacheInv fw heap rm' \<and> m_GenerateMotionVectors rm' = m_GenerateMotionVectors rm"
  using cacheInv_loadEntities [of fw heap rm "EntityDataBlocks b"]
  by (auto simp: OnNewContentLoaded_def Let_def split: sum.splits)

lemma unloadFromSurfaces_result:
  "unloadFromSurfaces owner surfacePtr xs rm = Some (found, xs', rm') \<Longrightarrow>
   set xs' \<subseteq> set xs \<and> m_GenerateMotionVectors rm' = m_GenerateMotionVectors rm"
proof (induction xs arbitrary: found xs' rm')
  case Nil
  then show ?case by simp
next
  case (Cons x xs)
  show ?case
  proof (cases "pOwner x = owner \<and> pSurface x = surfacePtr")
    case True
    with Cons.prems obtain r where "removeTextures (TextureIndices x) rm = Some r" "xs' = xs" "rm' = r"
      by (auto split: option.splits)
    with removeTextures_Some_fields(4) [of "TextureIndices x" rm r] show ?thesis by auto
  next
    case False
    with Cons.prems obtain f ys r where u: "unloadFromSurfaces owner surfacePtr xs rm = Some (f, ys, r)"
      and e: "found = f" "xs' = x # ys" "rm' = r"
      by (auto split: option.splits)
    from Cons.IH [OF u] e show ?thesis by auto
  qed
qed

lemma unloadFromGroups_result:
  "unloadFromGroups owner surfacePtr gs rm = Some (gs', rm') \<Longrightarrow>
   map m_PipelineHash gs' = map m_PipelineHash gs \<and>
   length gs' = length gs \<and>
   (\<forall>i < length gs. set (m_RenderSurfaces (gs' ! i)) \<subseteq> set (m_RenderSurfaces (gs ! i))) \<and>
   m_GenerateMotionVectors rm' = m_GenerateMotionVectors rm"
proof (induction gs arbitrary: gs' rm rm')
  case Nil
  then show ?case by simp
next
  case (Cons g gs)
  from Cons.prems obtain f xs r where
    u: "unloadFromSurfaces owner surfacePtr (m_RenderSurfaces g) rm = Some (f, xs, r)"
    by (auto split: option.splits)
  note s = unloadFromSurfaces_result [OF u]
  show ?case
  proof (cases f)
    case True
    with Cons.prems u have e: "gs' = g\<lparr>m_RenderSurfaces := xs\<rparr> # gs" "rm' = r" by auto
    have "\<forall>i < length (g # gs). set (m_RenderSurfaces (gs' ! i)) \<subseteq> set (m_RenderSurfaces ((g # gs) ! i))"
    proof (intro allI impI)
      fix i assume "i < length (g # gs)"
      then show "set (m_RenderSurfaces (gs' ! i)) \<subseteq> set (m_RenderSurfaces ((g # gs) ! i))"
        using s e by (cases i) auto
    qed
    with e s show ?thesis by simp
  next
    case False
    with Cons.prems u obtain ys r' where
      v: "unloadFromGroups owner surfacePtr gs r = Some (ys, r')" and e: "gs' = g # ys" "rm' = r'"
      by (auto split: option.splits)
    note ih = Cons.IH [OF v]
    have "\<forall>i < length (g # gs). set (m_RenderSurfaces (gs' ! i)) \<subseteq> set (m_RenderSurfaces ((g # gs) ! i))"
    proof (intro allI impI)
      fix i assume "i < length (g # gs)"
      then show "set (m_RenderSurfaces (gs' ! i)) \<subseteq> set (m_RenderSurfaces ((g # gs) ! i))"
        using ih e by (cases i) auto
    qed
    with e ih s show ?thesis by simp
  qed
qed

lemma cacheInv_unloadSurface:
  assumes "cacheInv fw heap rm" "unloadSurface owner surfacePtr rm = Some rm'"
  shows "cacheInv fw heap rm' \<and> m_GenerateMotionVectors rm' = m_GenerateMotionVectors rm"
proof -
  from assms(2) obtain gs' r where
    u: "unloadFromGroups owner surfacePtr (m_PipelineRenderGroups rm) rm = Some (gs', r)"
    and e: "rm' = r\<lparr>m_PipelineRenderGroups := gs'\<rparr>"
    by (auto simp: unloadSurface_def split: option.splits)
  note q = unloadFromGroups_result [OF u]
  have "\<forall>x \<in> set (m_RenderSurfaces g).
          m_PipelineHash g = surfaceHash fw heap (m_GenerateMotionVectors rm) (pSurface x)"
    if "g \<in> set gs'" for g
  proof -
    from that obtain i where i: "i < length gs'" "g = gs' ! i" by (auto simp: in_set_conv_nth)
    with q have "m_PipelineHash g = m_PipelineHash (m_PipelineRenderGroups rm ! i)"
      by (metis nth_map)
    moreover from i q have "set (m_RenderSurfaces g) \<subseteq> set (m_RenderSurfaces (m_PipelineRenderGroups rm ! i))"
      by simp
    moreover from i q have "m_PipelineRenderGroups rm ! i \<in> set (m_PipelineRenderGroups rm)" by simp
    ultimately show ?thesis using assms(1) by (auto simp: cacheInv_def)
  qed
  with q e assms(1) show ?thesis by (simp add: cacheInv_def)
qed

lemma cacheInv_unloadSurfaces:
  "cacheInv fw heap rm \<Longrightarrow> unloadSurfaces owner ss rm = Some rm' \<Longrightarrow>
   cacheInv fw heap rm' \<and> m_GenerateMotionVectors rm' = m_GenerateMotionVectors rm"
proof (induction ss arbitrary: rm)
  case Nil
  then show ?case by simp
next
  case (Cons s ss)
  from Cons.prems(2) obtain r where u: "unloadSurface owner s rm = Some r"
    and v: "unloadSurfaces owner ss r = Some rm'" by (auto split: option.splits)
  from cacheInv_unloadSurface [OF Cons.prems(1) u] Cons.IH [OF _ v] show ?case by simp
qed

lemma cacheInv_unloadComponents:
  "cacheInv fw heap rm \<Longrightarrow> unloadComponents cs rm = Some rm' \<Longrightarrow>
   cacheInv fw heap rm' \<and> m_GenerateMotionVectors rm' = m_GenerateMotionVectors rm"
proof (induction cs rm rule: unloadComponents.induct)
  case (1 rm)
  then show ?case by simp
next
  case (2 owner mesh cs rm)
  from "2.prems"(2) obtain r where u: "unloadSurfaces owner mesh rm = Some r"
    and v: "unloadComponents cs r = Some rm'" by (auto split: option.splits)
  from cacheInv_unloadSurfaces [OF "2.prems"(1) u] "2.IH" [OF u _ v] show ?case by simp
next
  case (3 owner cs rm)
  then show ?case by simp
qed

lemma cacheInv_unloadEntities:
  "cacheInv fw heap rm \<Longrightarrow> unloadEntities es rm = Some rm' \<Longrightarrow>
   cacheInv fw heap rm' \<and> m_GenerateMotionVectors rm' = m_GenerateMotionVectors rm"
proof (induction es arbitrary: rm)
  case Nil
  then show ?case by simp
next
  case (Cons e es)
  from Cons.prems(2) obtain r where u: "unloadComponents (Components e) rm = Some r"
    and v: "unloadEntities es r = Some rm'" by (auto split: option.splits)
  from cacheInv_unloadComponents [OF Cons.prems(1) u] Cons.IH [OF _ v] show ?case by simp
qed

lemma cacheInv_handleNotifications:
  "cacheInv fw heap rm \<Longrightarrow> handleNotifications fw heap ns rm = Some rm' \<Longrightarrow> cacheInv fw heap rm'"
proof (induction fw heap ns rm rule: handleNotifications.induct)
  case (1 fw heap rm)
  then show ?case by simp
next
  case (2 fw heap b ns rm)
  from "2.prems"(2) obtain r cmds where u: "OnNewContentLoaded fw heap b rm = Inr (r, cmds)"
    and v: "handleNotifications fw heap ns r = Some rm'"
    by (auto split: sum.splits)
  from cacheInv_OnNewContentLoaded [OF "2.prems"(1) u] "2.IH" [OF u _ _ v] show ?case by simp
next
  case (3 fw heap b ns rm)
  from "3.prems"(2) obtain r where u: "OnContentUnloaded b rm = Some r"
    and v: "handleNotifications fw heap ns r = Some rm'"
    by (auto split: option.splits)
  from cacheInv_unloadEntities [OF "3.prems"(1), of "EntityDataBlocks b" r] u "3.IH" [OF u _ v]
  show ?case by (simp add: OnContentUnloaded_def)
qed

lemma filter_at_most_one:
  "distinct (map f xs) \<Longrightarrow> (\<And>x. x \<in> set xs \<Longrightarrow> P x \<Longrightarrow> f x = c) \<Longrightarrow> length (filter P xs) \<le> 1"
proof (induction xs)
  case Nil
  then show ?case by simp
next
  case (Cons x xs)
  show ?case
  proof (cases "P x")
    case True
    with Cons.prems(2) have fx: "f x = c" by simp
    have "filter P xs = []"
    proof (rule ccontr)
      assume "filter P xs \<noteq> []"
      then obtain y where y: "y \<in> set xs" "P y" by (auto simp: filter_empty_conv)
      with Cons.prems(2) have fy: "f y = c" by simp
      have "f x \<notin> f ` set xs" using Cons.prems(1) by simp
      moreover have "f y \<in> f ` set xs" using y(1) by simp
      ultimately show False using fx fy by simp
    qed
    with True show ?thesis by simp
  next
    case False
    with Cons show ?thesis by simp
  qed
qed

text \<open>
  Claim C8. In every module reached from the initial module by a sequence of load and
  unload notifications, handled one after the other, the groups whose surface list has
  an entry of a given entity and surface number at most one. The heap of surfaces and
  the framework helpers are arbitrary but the same throughout the sequence.
\<close>

theorem surface_in_at_most_one_group:
  assumes "handleNotifications fw heap ns (initModule vs mv) = Some rm"
  shows "length (filter (\<lambda>g. \<exists>x \<in> set (m_RenderSurfaces g). pOwner x = owner \<and> pSurface x = surfacePtr)
                   (m_PipelineRenderGroups rm)) \<le> 1"
proof -
  have "cacheInv fw heap (initModule vs mv)" by (simp add: cacheInv_def initModule_def)
  from cacheInv_handleNotifications [OF this assms] have inv: "cacheInv fw heap rm" .
  show ?thesis
  proof (rule filter_at_most_one [where f = m_PipelineHash
        and c = "surfaceHash fw heap (m_GenerateMotionVectors rm) surfacePtr"])
    show "distinct (map m_PipelineHash (m_PipelineRenderGroups rm))"
      using inv by (simp add: cacheInv_def)
    show "m_PipelineHash g = surfaceHash fw heap (m_GenerateMotionVectors rm) surfacePtr"
      if "g \<in> set (m_PipelineRenderGroups rm)"
        "\<exists>x \<in> set (m_RenderSurfaces g). pOwner x = owner \<and> pSurface x = surfacePtr" for g
      using inv that by (auto simp: cacheInv_def)
  qed
qed

theorem surface_in_at_most_one_group_witness:
  "\<exists>rm. handleNotifications sampleFramework sampleHeap sampleNotifications (initModule False False) = Some rm \<and>
      map (\<lambda>g. map (\<lambda>x. (pOwner x, pSurface x)) (m_RenderSurfaces g)) (m_PipelineRenderGroups rm) =
        [[(1, 100), (1, 100)], [(1, 200)]] \<and>
      length (filter (\<lambda>g. \<exists>x \<in> set (m_RenderSurfaces g). pOwner x = 1 \<and> pSurface x = 100)
                   (m_PipelineRenderGroups rm)) \<le> 1"
proof -
  have "map_option (\<lambda>rm. map (\<lambda>g. map (\<lambda>x. (pOwner x, pSurface x)) (m_RenderSurfaces g))
                            (m_PipelineRenderGroups rm))
          (handleNotifications sampleFramework sampleHeap sampleNotifications (initModule False False)) =
        Some [[(1, 100), (1, 100)], [(1, 200)]]"
    by code_simp
  then obtain rm where
    r: "handleNotifications sampleFramework sampleHeap sampleNotifications (initModule False False) = Some rm"
    and g: "map (\<lambda>g. map (\<lambda>x. (pOwner x, pSurface x)) (m_RenderSurfaces g)) (m_PipelineRenderGroups rm) =
        [[(1, 100), (1, 100)], [(1, 200)]]"
    by auto
  from surface_in_at_most_one_group [OF r, of 1 100] r g
  have "handleNotifications sampleFramework sampleHeap sampleNotifications (initModule False False) = Some rm \<and>
      map (\<lambda>g. map (\<lambda>x. (pOwner x, pSurface x)) (m_RenderSurfaces g)) (m_PipelineRenderGroups rm) =
        [[(1, 100), (1, 100)], [(1, 200)]] \<and>
      length (filter (\<lambda>g. \<exists>x \<in> set (m_RenderSurfaces g). pOwner x = 1 \<and> pSurface x = 100)
                   (m_PipelineRenderGroups rm)) \<le> 1"
    by simp
  then show ?thesis ..
qed

section \<open>The capacity assertions\<close>


lemma publishTables_assertions:
  "publishTables fw rm = Inl TooManyTextures \<longleftrightarrow> MAX_TEXTURES_COUNT fw div 2 < length (m_Textures rm)"
  "publishTables fw rm = Inl TooManySamplers \<longleftrightarrow>
     length (m_Textures rm) \<le> MAX_TEXTURES_COUNT fw div 2 \<and> MAX_SAMPLERS_COUNT fw < length (m_Samplers rm)"
  by (auto simp: publishTables_def)

text \<open>
  Claim C5. The block that ends OnNewContentLoaded fails the texture assertion exactly
  when the number of texture slots exceeds half of \<^verbatim>\<open>MAX_TEXTURES_COUNT\<close>
  (\<open>publishTables_assertions\<close>), and publishes both tables when no assertion fails
  (\<open>publishTables_Inr\<close>). The sampler assertion, however, compares the number of
  samplers with \<^verbatim>\<open>MAX_SAMPLERS_COUNT\<close> itself and not with its half, although
  \<^verbatim>\<open>Init\<close> reserves \<^verbatim>\<open>MAX_SAMPLERS_COUNT / 2\<close> as "the max number of samplers"
  and the texture assertion divides by 2. With \<^verbatim>\<open>MAX_SAMPLERS_COUNT\<close> = 20, loading
  one mesh of 11 surfaces with 11 different sampler descriptors leaves 11 samplers,
  more than the half of 10: no assertion fails and all 11 samplers are published.
\<close>

theorem sampler_assertion_passes_above_half:
  "MAX_SAMPLERS_COUNT sampleFramework div 2 = 10 \<and>
   (case OnNewContentLoaded sampleFramework manySamplersHeap manySamplersBlock (initModule False False) of
      Inl f \<Rightarrow> None
    | Inr (rm, cmds) \<Rightarrow> Some (length (m_Textures rm), length (m_Samplers rm),
                              length (filter (\<lambda>c. case c of SetSampler s i \<Rightarrow> True | _ \<Rightarrow> False) cmds)))
     = Some (11, 11, 11)"
  by code_simp

section \<open>Properties of frame submission\<close>

lemma countActive_eq:
  "countActive heap xs c = c + of_nat (length (activeSurfaces heap xs))"
  by (induction xs arbitrary: c) (simp_all add: activeSurfaces_def)

lemma unat_succ_below:
  fixes cur ac :: u32
  assumes "unat cur < unat ac"
  shows "unat (cur + 1) = unat cur + 1"
proof -
  have "unat ac < 2 ^ LENGTH(32)" by (rule unsigned_less)
  with assms have "unat cur + unat (1 :: u32) < 2 ^ LENGTH(32)" by simp
  then have "unat (cur + 1) = unat cur + unat (1 :: u32)" by (simp only: unat_add_lem)
  then show ?thesis by simp
qed

lemma instanceSlots_append: "instanceSlots (as @ bs) = instanceSlots as @ instanceSlots bs"
  by (induction as rule: instanceSlots.induct) simp_all

lemma drawSurfaces_Inr:
  "drawSurfaces heap g ac xs cur = Inr cmds \<Longrightarrow> unat cur \<le> unat ac \<Longrightarrow>
     unat cur + length (activeSurfaces heap xs) \<le> unat ac \<and>
     length (filter isDraw cmds) = length (activeSurfaces heap xs) \<and>
     instanceSlots cmds =
       zip (map (\<lambda>k. cur + of_nat k) [0 ..< length (activeSurfaces heap xs)])
           (map (\<lambda>x. (pOwner x, pSurface x)) (activeSurfaces heap xs)) \<and>
     filter isBatchAllocate cmds = [] \<and> filter isViewport cmds = []"
proof (induction xs arbitrary: cur cmds)
  case Nil
  then show ?case by (simp add: activeSurfaces_def)
next
  case (Cons x xs)
  show ?case
  proof (cases "IsActive heap (pOwner x)")
    case False
    with Cons.prems have "drawSurfaces heap g ac xs cur = Inr cmds" by simp
    from Cons.IH [OF this Cons.prems(2)] False show ?thesis by (simp add: activeSurfaces_def)
  next
    case True
    from Cons.prems True have lt: "unat cur < unat ac" by (auto split: if_splits)
    from Cons.prems True lt obtain vbs rest where
      r: "drawSurfaces heap g ac xs (cur + 1) = Inr rest"
      and c: "cmds = [InitializeInstanceInformation cur (pOwner x) (pSurface x),
                     InitializeTextureIndices cur (TextureIndices x),
                     UpdateRootConstantBuffer 1, UpdateRootConstantBuffer 2,
                     Bind (m_Pipeline g), SetVertexBuffers vbs,
                     SetIndexBuffer (IndexBufferAddress (surfaceAt heap (pSurface x))),
                     DrawIndexedInstanced (IndexBufferCount (surfaceAt heap (pSurface x)))] @ rest"
      by (auto simp: Let_def split: sum.splits)
    have u: "unat (cur + 1) = unat cur + 1" using lt by (rule unat_succ_below)
    with lt have "unat (cur + 1) \<le> unat ac" by simp
    note ih = Cons.IH [OF r this]
    let ?n = "length (activeSurfaces heap xs)"
    have a: "activeSurfaces heap (x # xs) = x # activeSurfaces heap xs"
      using True by (simp add: activeSurfaces_def)
    have m: "map (\<lambda>k. cur + of_nat k) [0 ..< Suc ?n] =
             cur # map (\<lambda>k. cur + 1 + of_nat k) [0 ..< ?n]"
      by (simp add: upt_conv_Cons map_Suc_upt [symmetric] add.assoc del: upt_Suc)
    from ih u a c m show ?thesis by simp
  qed
qed

lemma skinVertexBuffers_fits:
  "2 \<le> length vbs \<Longrightarrow> \<exists>vbs'. skinVertexBuffers animData surfaceID vbs = Inr vbs'"
  by (cases vbs) (auto simp: skinVertexBuffers_def Let_def)

lemma drawSurfaces_total:
  "unat cur + length (activeSurfaces heap xs) \<le> unat ac \<Longrightarrow>
   (\<And>x. x \<in> set xs \<Longrightarrow> IsActive heap (pOwner x) \<Longrightarrow> skinFits heap g x) \<Longrightarrow>
   \<exists>cmds. drawSurfaces heap g ac xs cur = Inr cmds"
proof (induction xs arbitrary: cur)
  case Nil
  then show ?case by simp
next
  case (Cons x xs)
  show ?case
  proof (cases "IsActive heap (pOwner x)")
    case False
    with Cons.prems(1) have "unat cur + length (activeSurfaces heap xs) \<le> unat ac"
      by (simp add: activeSurfaces_def)
    from Cons.IH [OF this] Cons.prems(2) False show ?thesis by simp
  next
    case True
    then have a: "activeSurfaces heap (x # xs) = x # activeSurfaces heap xs"
      by (simp add: activeSurfaces_def)
    with Cons.prems(1) have lt: "unat cur < unat ac" by simp
    then have u: "unat (cur + 1) = unat cur + 1" by (rule unat_succ_below)
    with Cons.prems(1) a have "unat (cur + 1) + length (activeSurfaces heap xs) \<le> unat ac" by simp
    from Cons.IH [OF this] Cons.prems(2) obtain rest where
      r: "drawSurfaces heap g ac xs (cur + 1) = Inr rest" by auto
    let ?vbs = "vertexBuffersOf (m_UsedAttributes g) (surfaceAt heap (pSurface x))"
    have "\<exists>vbs'. (case AnimationComponent heap (pOwner x) of
                     None \<Rightarrow> Inr ?vbs
                   | Some animData \<Rightarrow>
                       if m_skinId animData \<noteq> -1
                       then skinVertexBuffers animData (GetSurfaceID (surfaceAt heap (pSurface x))) ?vbs
                       else Inr ?vbs) = Inr vbs'"
    proof (cases "AnimationComponent heap (pOwner x)")
      case None
      then show ?thesis by simp
    next
      case (Some d)
      from Cons.prems(2) [of x] True Some
      have "m_skinId d = -1 \<or> 2 \<le> length ?vbs" by (simp add: skinFits_def)
      with Some skinVertexBuffers_fits [of ?vbs d "GetSurfaceID (surfaceAt heap (pSurface x))"]
      show ?thesis by auto
    qed
    then obtain vbs' where "(case AnimationComponent heap (pOwner x) of
                     None \<Rightarrow> Inr ?vbs
                   | Some animData \<Rightarrow>
                       if m_skinId animData \<noteq> -1
                       then skinVertexBuffers animData (GetSurfaceID (surfaceAt heap (pSurface x))) ?vbs
                       else Inr ?vbs) = Inr vbs'" ..
    with True lt r show ?thesis by (simp add: Let_def)
  qed
qed

lemma bindSceneTextures_filters:
  assumes "bindSceneTextures fw fc = Inr b"
  shows "filter isDraw b = []" and "filter isBatchAllocate b = []" and "filter isViewport b = []"
  using assms
  by (auto simp: bindSceneTextures_def Let_def filter_map comp_def
           split: option.splits if_splits)

lemma renderGroup_Inr:
  assumes "renderGroup heap g = Inr cmds"
  defines "n \<equiv> length (activeSurfaces heap (m_RenderSurfaces g))"
  shows "length (filter isDraw cmds) = n"
    and "filter isBatchAllocate cmds =
           [BatchAllocateConstantBuffer ''InstanceInformation'' (of_nat n),
            BatchAllocateConstantBuffer ''TextureIndices'' (of_nat n)]"
    and "unat (of_nat n :: u32) = n"
    and "instanceSlots cmds =
           zip (map of_nat [0 ..< n])
               (map (\<lambda>x. (pOwner x, pSurface x)) (activeSurfaces heap (m_RenderSurfaces g)))"
    and "filter isViewport cmds = []"
proof -
  have ac: "countActive heap (m_RenderSurfaces g) 0 = of_nat n"
    by (simp add: countActive_eq n_def)
  from assms(1) obtain rest where
    d: "drawSurfaces heap g (of_nat n) (m_RenderSurfaces g) 0 = Inr rest"
    and c: "cmds = [SetPipelineState (m_Pipeline g),
                   BatchAllocateConstantBuffer ''InstanceInformation'' (of_nat n),
                   BatchAllocateConstantBuffer ''TextureIndices'' (of_nat n)] @ rest"
    by (auto simp: renderGroup_def ac Let_def split: sum.splits)
  have "unat (0 :: u32) \<le> unat (of_nat n :: u32)" by simp
  note q = drawSurfaces_Inr [OF d this, folded n_def]
  from q have le: "n \<le> unat (of_nat n :: u32)" by simp
  have "unat (of_nat n :: u32) \<le> n" by (simp add: unat_of_nat)
  with le show u: "unat (of_nat n :: u32) = n" by simp
  from q c show "length (filter isDraw cmds) = n" by simp
  from q c show "filter isBatchAllocate cmds =
           [BatchAllocateConstantBuffer ''InstanceInformation'' (of_nat n),
            BatchAllocateConstantBuffer ''TextureIndices'' (of_nat n)]" by simp
  from q c show "instanceSlots cmds =
           zip (map of_nat [0 ..< n])
               (map (\<lambda>x. (pOwner x, pSurface x)) (activeSurfaces heap (m_RenderSurfaces g)))"
    by simp
  from q c show "filter isViewport cmds = []" by simp
qed

lemma renderGroup_total:
  assumes "length (m_RenderSurfaces g) < 2 ^ 32"
    and "\<And>x. x \<in> set (m_RenderSurfaces g) \<Longrightarrow> IsActive heap (pOwner x) \<Longrightarrow> skinFits heap g x"
  shows "\<exists>cmds. renderGroup heap g = Inr cmds"
proof -
  let ?n = "length (activeSurfaces heap (m_RenderSurfaces g))"
  have "?n \<le> length (m_RenderSurfaces g)" by (simp add: activeSurfaces_def)
  with assms(1) have "?n < 2 ^ 32" by simp
  then have "unat (of_nat ?n :: u32) = ?n" by (simp add: unat_of_nat)
  then have "unat (0 :: u32) + ?n \<le> unat (of_nat ?n :: u32)" by simp
  from drawSurfaces_total [OF this assms(2)] obtain cmds where
    "drawSurfaces heap g (of_nat ?n) (m_RenderSurfaces g) 0 = Inr cmds" by blast
  then show ?thesis by (simp add: renderGroup_def countActive_eq Let_def)
qed

lemma renderGroups_concat:
  "renderGroups heap gs = Inr cmds \<Longrightarrow>
   \<exists>cs. cmds = concat cs \<and> length cs = length gs \<and>
        (\<forall>i < length gs. renderGroup heap (gs ! i) = Inr (cs ! i))"
proof (induction gs arbitrary: cmds)
  case Nil
  then show ?case by simp
next
  case (Cons g gs)
  from Cons.prems obtain c rest where g: "renderGroup heap g = Inr c"
    and r: "renderGroups heap gs = Inr rest" and e: "cmds = c @ rest"
    by (auto split: sum.splits)
  from Cons.IH [OF r] obtain cs where cs: "rest = concat cs" "length cs = length gs"
    "\<forall>i < length gs. renderGroup heap (gs ! i) = Inr (cs ! i)" by blast
  have "\<forall>i < length (g # gs). renderGroup heap ((g # gs) ! i) = Inr ((c # cs) ! i)"
  proof (intro allI impI)
    fix i assume "i < length (g # gs)"
    then show "renderGroup heap ((g # gs) ! i) = Inr ((c # cs) ! i)"
      using g cs(3) by (cases i) simp_all
  qed
  with e cs(1,2) have "cmds = concat (c # cs) \<and> length (c # cs) = length (g # gs) \<and>
        (\<forall>i < length (g # gs). renderGroup heap ((g # gs) ! i) = Inr ((c # cs) ! i))"
    by simp
  then show ?case by blast
qed

lemma renderGroups_no_viewport:
  "renderGroups heap gs = Inr cmds \<Longrightarrow> filter isViewport cmds = []"
proof (induction gs arbitrary: cmds)
  case Nil
  then show ?case by simp
next
  case (Cons g gs)
  from Cons.prems obtain c rest where g: "renderGroup heap g = Inr c"
    and r: "renderGroups heap gs = Inr rest" and e: "cmds = c @ rest"
    by (auto split: sum.splits)
  from renderGroup_Inr(5) [OF g] Cons.IH [OF r] e show ?case by simp
qed

lemma renderGroups_total:
  "(\<And>g. g \<in> set gs \<Longrightarrow> \<exists>cmds. renderGroup heap g = Inr cmds) \<Longrightarrow>
   \<exists>cmds. renderGroups heap gs = Inr cmds"
proof (induction gs)
  case Nil
  then show ?case by simp
next
  case (Cons g gs)
  from Cons.prems [of g] obtain c where "renderGroup heap g = Inr c" by auto
  moreover from Cons.IH Cons.prems obtain rest where "renderGroups heap gs = Inr rest" by auto
  ultimately show ?case by simp
qed

lemma Execute_Inr:
  assumes "Execute fw heap fc rm = Inr trace"
  shows "\<exists>bindings setup draws.
           bindSceneTextures fw fc = Inr bindings \<and>
           renderGroups heap (m_PipelineRenderGroups rm) = Inr draws \<and>
           trace = (bindings @ setup) @ draws @ [EndRaster (m_VariableShading rm), ResourceBarrier 2] \<and>
           filter isDraw setup = [] \<and> filter isBatchAllocate setup = [] \<and>
           filter isViewport setup =
             [SetViewportScissorRect (fst (viewportSize fc)) (snd (viewportSize fc))]"
  using assms
  by (auto simp: Execute_def Let_def case_prod_beta split: sum.splits)

text \<open>
  Claim C4. For every pipeline group, when the body of the group loop of a frame
  completes: the number of indexed draws equals the number of surfaces of the group
  whose owner is active; both batch allocations (instance information, texture indices)
  ask for exactly that number of slots; and the slots written are 0, 1, ... in order,
  one for each active surface, so a surface with an inactive owner is not drawn and
  takes no slot. The body completes for every group with fewer than \<open>2^32\<close> surfaces
  whose skinned active surfaces bind at least two vertex buffers. The calls of a frame
  that completes are those of the group bodies in group order, between a prologue and
  an epilogue that neither draw nor batch-allocate.
\<close>

theorem draws_and_slots_equal_active_count:
  "(renderGroup heap g = Inr cmds \<longrightarrow>
      length (filter isDraw cmds) = length (activeSurfaces heap (m_RenderSurfaces g)) \<and>
      filter isBatchAllocate cmds =
        [BatchAllocateConstantBuffer ''InstanceInformation''
           (of_nat (length (activeSurfaces heap (m_RenderSurfaces g)))),
         BatchAllocateConstantBuffer ''TextureIndices''
           (of_nat (length (activeSurfaces heap (m_RenderSurfaces g))))] \<and>
      unat (of_nat (length (activeSurfaces heap (m_RenderSurfaces g))) :: u32) =
        length (activeSurfaces heap (m_RenderSurfaces g)) \<and>
      instanceSlots cmds =
        zip (map of_nat [0 ..< length (activeSurfaces heap (m_RenderSurfaces g))])
            (map (\<lambda>x. (pOwner x, pSurface x)) (activeSurfaces heap (m_RenderSurfaces g)))) \<and>
   (length (m_RenderSurfaces g) < 2 ^ 32 \<and>
    (\<forall>x \<in> set (m_RenderSurfaces g). IsActive heap (pOwner x) \<longrightarrow> skinFits heap g x) \<longrightarrow>
      (\<exists>cmds'. renderGroup heap g = Inr cmds')) \<and>
   (Execute fw heap fc rm = Inr trace \<longrightarrow>
      (\<exists>pre cs post.
         trace = pre @ concat cs @ post \<and>
         length cs = length (m_PipelineRenderGroups rm) \<and>
         (\<forall>i < length (m_PipelineRenderGroups rm).
            renderGroup heap (m_PipelineRenderGroups rm ! i) = Inr (cs ! i)) \<and>
         filter isDraw pre = [] \<and> filter isBatchAllocate pre = [] \<and>
         filter isDraw post = [] \<and> filter isBatchAllocate post = []))"
proof (intro conjI impI)
  assume r: "renderGroup heap g = Inr cmds"
  note q = renderGroup_Inr [OF r]
  from q(1) show "length (filter isDraw cmds) = length (activeSurfaces heap (m_RenderSurfaces g))" .
  from q(2) show "filter isBatchAllocate cmds =
        [BatchAllocateConstantBuffer ''InstanceInformation''
           (of_nat (length (activeSurfaces heap (m_RenderSurfaces g)))),
         BatchAllocateConstantBuffer ''TextureIndices''
           (of_nat (length (activeSurfaces heap (m_RenderSurfaces g))))]" .
  from q(3) show "unat (of_nat (length (activeSurfaces heap (m_RenderSurfaces g))) :: u32) =
        length (activeSurfaces heap (m_RenderSurfaces g))" .
  from q(4) show "instanceSlots cmds =
        zip (map of_nat [0 ..< length (activeSurfaces heap (m_RenderSurfaces g))])
            (map (\<lambda>x. (pOwner x, pSurface x)) (activeSurfaces heap (m_RenderSurfaces g)))" .
next
  assume "length (m_RenderSurfaces g) < 2 ^ 32 \<and>
    (\<forall>x \<in> set (m_RenderSurfaces g). IsActive heap (pOwner x) \<longrightarrow> skinFits heap g x)"
  then show "\<exists>cmds'. renderGroup heap g = Inr cmds'"
    by (intro renderGroup_total) auto
next
  assume "Execute fw heap fc rm = Inr trace"
  from Execute_Inr [OF this] obtain bindings prologue draws where
    b: "bindSceneTextures fw fc = Inr bindings"
    and d: "renderGroups heap (m_PipelineRenderGroups rm) = Inr draws"
    and t: "trace = (bindings @ prologue) @ draws @ [EndRaster (m_VariableShading rm), ResourceBarrier 2]"
    and s: "filter isDraw prologue = []" "filter isBatchAllocate prologue = []"
    by blast
  from renderGroups_concat [OF d] obtain cs where
    cs: "draws = concat cs" "length cs = length (m_PipelineRenderGroups rm)"
    "\<forall>i < length (m_PipelineRenderGroups rm).
            renderGroup heap (m_PipelineRenderGroups rm ! i) = Inr (cs ! i)" by blast
  note f = bindSceneTextures_filters [OF b]
  let ?pre = "bindings @ prologue"
  let ?post = "[EndRaster (m_VariableShading rm), ResourceBarrier 2]"
  have "trace = ?pre @ concat cs @ ?post \<and>
         length cs = length (m_PipelineRenderGroups rm) \<and>
         (\<forall>i < length (m_PipelineRenderGroups rm).
            renderGroup heap (m_PipelineRenderGroups rm ! i) = Inr (cs ! i)) \<and>
         filter isDraw ?pre = [] \<and> filter isBatchAllocate ?pre = [] \<and>
         filter isDraw ?post = [] \<and> filter isBatchAllocate ?post = []"
    using t cs f s by simp
  then show "\<exists>pre cs post.
         trace = pre @ concat cs @ post \<and>
         length cs = length (m_PipelineRenderGroups rm) \<and>
         (\<forall>i < length (m_PipelineRenderGroups rm).
            renderGroup heap (m_PipelineRenderGroups rm ! i) = Inr (cs ! i)) \<and>
         filter isDraw pre = [] \<and> filter isBatchAllocate pre = [] \<and>
         filter isDraw post = [] \<and> filter isBatchAllocate post = []"
    by blast
qed

theorem draws_and_slots_equal_active_count_witness:
  "\<exists>cmds. renderGroup sampleHeap threeSurfaceGroup = Inr cmds \<and>
      length (filter isDraw cmds) = 2 \<and>
      filter isBatchAllocate cmds =
        [BatchAllocateConstantBuffer ''InstanceInformation'' 2,
         BatchAllocateConstantBuffer ''TextureIndices'' 2] \<and>
      instanceSlots cmds = [(0, 1, 100), (1, 2, 200)]"
proof -
  have a: "activeSurfaces sampleHeap (m_RenderSurfaces threeSurfaceGroup) =
      [\<lparr>pOwner = 1, pSurface = 100, TextureIndices = sampleIndices 0 (-1)\<rparr>,
       \<lparr>pOwner = 2, pSurface = 200, TextureIndices = sampleIndices 0 1\<rparr>]"
    by (simp add: activeSurfaces_def threeSurfaceGroup_def sampleGroup_def sampleHeap_def)
  have h: "length (m_RenderSurfaces threeSurfaceGroup) < 2 ^ 32 \<and>
    (\<forall>x \<in> set (m_RenderSurfaces threeSurfaceGroup).
        IsActive sampleHeap (pOwner x) \<longrightarrow> skinFits sampleHeap threeSurfaceGroup x)"
    by (simp add: threeSurfaceGroup_def sampleGroup_def sampleHeap_def skinFits_def)
  note t = draws_and_slots_equal_active_count [of sampleHeap threeSurfaceGroup]
  from t [THEN conjunct2, THEN conjunct1, THEN mp, OF h]
  obtain cmds where r: "renderGroup sampleHeap threeSurfaceGroup = Inr cmds" ..
  from t [of cmds, THEN conjunct1, THEN mp, OF r]
  have "length (filter isDraw cmds) = 2 \<and>
      filter isBatchAllocate cmds =
        [BatchAllocateConstantBuffer ''InstanceInformation'' 2,
         BatchAllocateConstantBuffer ''TextureIndices'' 2] \<and>
      instanceSlots cmds = [(0, 1, 100), (1, 2, 200)]"
    by (simp add: a upt_conv_Cons)
  with r have "renderGroup sampleHeap threeSurfaceGroup = Inr cmds \<and>
      length (filter isDraw cmds) = 2 \<and>
      filter isBatchAllocate cmds =
        [BatchAllocateConstantBuffer ''InstanceInformation'' 2,
         BatchAllocateConstantBuffer ''TextureIndices'' 2] \<and>
      instanceSlots cmds = [(0, 1, 100), (1, 2, 200)]" by simp
  then show ?thesis ..
qed

text \<open>
  Claim C9. The viewport and scissor size of a frame is the render resolution when the
  upscaler state is \<open>PreUpscale\<close> (upscaling active and not yet applied), and the
  upscaled resolution otherwise (\<open>None\<close> or \<open>PostUpscale\<close>); a frame that completes
  sets the viewport and scissor rectangle exactly once, to that size.
\<close>

theorem viewport_follows_upscaler_state:
  "viewportSize fc =
     (if GetUpscalingState fc = UpscalerState_PreUpscale
      then (RenderWidth (GetResolutionInfo fc), RenderHeight (GetResolutionInfo fc))
      else (UpscaleWidth (GetResolutionInfo fc), UpscaleHeight (GetResolutionInfo fc))) \<and>
   (Execute fw heap fc rm = Inr trace \<longrightarrow>
      filter isViewport trace =
        [SetViewportScissorRect (fst (viewportSize fc)) (snd (viewportSize fc))])"
proof (intro conjI impI)
  show "viewportSize fc =
     (if GetUpscalingState fc = UpscalerState_PreUpscale
      then (RenderWidth (GetResolutionInfo fc), RenderHeight (GetResolutionInfo fc))
      else (UpscaleWidth (GetResolutionInfo fc), UpscaleHeight (GetResolutionInfo fc)))"
    by (cases "GetUpscalingState fc") (simp_all add: viewportSize_def Let_def)
next
  assume "Execute fw heap fc rm = Inr trace"
  from Execute_Inr [OF this] obtain bindings prologue draws where
    b: "bindSceneTextures fw fc = Inr bindings"
    and d: "renderGroups heap (m_PipelineRenderGroups rm) = Inr draws"
    and t: "trace = (bindings @ prologue) @ draws @ [EndRaster (m_VariableShading rm), ResourceBarrier 2]"
    and s: "filter isViewport prologue =
             [SetViewportScissorRect (fst (viewportSize fc)) (snd (viewportSize fc))]"
    by blast
  from t s bindSceneTextures_filters(3) [OF b] renderGroups_no_viewport [OF d]
  show "filter isViewport trace =
        [SetViewportScissorRect (fst (viewportSize fc)) (snd (viewportSize fc))]"
    by simp
qed

theorem viewport_follows_upscaler_state_witness:
  "viewportSize sampleFrame = (1280, 720) \<and>
   viewportSize (sampleFrame\<lparr>GetUpscalingState := UpscalerState_PostUpscale\<rparr>) = (2560, 1440) \<and>
   viewportSize (sampleFrame\<lparr>GetUpscalingState := UpscalerState_None\<rparr>) = (2560, 1440) \<and>
   (\<exists>trace. Execute sampleFramework sampleHeap sampleFrame loadedModule = Inr trace \<and>
      filter isViewport trace = [SetViewportScissorRect 1280 720])"
proof -
  have v: "viewportSize sampleFrame = (1280, 720)"
    using viewport_follows_upscaler_state [of sampleFrame, THEN conjunct1]
    by (simp add: sampleFrame_def)
  have p: "viewportSize (sampleFrame\<lparr>GetUpscalingState := UpscalerState_PostUpscale\<rparr>) = (2560, 1440)"
    using viewport_follows_upscaler_state
      [of "sampleFrame\<lparr>GetUpscalingState := UpscalerState_PostUpscale\<rparr>", THEN conjunct1]
    by (simp add: sampleFrame_def)
  have n: "viewportSize (sampleFrame\<lparr>GetUpscalingState := UpscalerState_None\<rparr>) = (2560, 1440)"
    using viewport_follows_upscaler_state
      [of "sampleFrame\<lparr>GetUpscalingState := UpscalerState_None\<rparr>", THEN conjunct1]
    by (simp add: sampleFrame_def)
  have "(case Execute sampleFramework sampleHeap sampleFrame loadedModule of
           Inl f \<Rightarrow> False | Inr trace \<Rightarrow> True)"
    by code_simp
  then obtain trace where e: "Execute sampleFramework sampleHeap sampleFrame loadedModule = Inr trace"
    by (auto split: sum.splits)
  from viewport_follows_upscaler_state
         [of sampleFrame sampleFramework sampleHeap loadedModule trace, THEN conjunct2, THEN mp, OF e] v
  have "Execute sampleFramework sampleHeap sampleFrame loadedModule = Inr trace \<and>
      filter isViewport trace = [SetViewportScissorRect 1280 720]"
    using e by simp
  then have "\<exists>trace. Execute sampleFramework sampleHeap sampleFrame loadedModule = Inr trace \<and>
      filter isViewport trace = [SetViewportScissorRect 1280 720]" ..
  with v p n show ?thesis by simp
qed

section \<open>Repeated lookup of a pipeline group\<close>








section \<open>The scenario of one surface\<close>








end
